theory Spec2Isabelle
  imports Main
begin

section \<open>purifycss.js: the orchestration layer of purifycss\<close>

text \<open>
  The module \<^verbatim>\<open>src/purifycss.js\<close> reads CSS and content sources, normalises the content
  into a corpus, asks its collaborators (the CSS syntax tree, the content selector
  extraction, UglifyJS, clean-css, the file system) to prune the CSS, and delivers the
  purified text. The collaborators are other modules: they are parameters of the model.
  JavaScript strings are modelled as \<^typ>\<open>string\<close>; a thrown exception is the left
  summand of a result.
\<close>

subsection \<open>Exceptions\<close>

datatype js_error = Error string

subsection \<open>UglifyJS and \<^verbatim>\<open>compressCode\<close> (lines 91-107)\<close>

text \<open>
  The methods of UglifyJS that \<^verbatim>\<open>compressCode\<close> calls. Each of them may throw. The
  methods that change the syntax tree in place return the changed tree here.
\<close>

record ('ast, 'cmp) uglify =
  parse :: "string \<Rightarrow> js_error + 'ast"
  figure_out_scope :: "'ast \<Rightarrow> js_error + 'ast"
  Compressor :: "js_error + 'cmp"
  transform :: "'ast \<Rightarrow> 'cmp \<Rightarrow> js_error + 'ast"
  compute_char_frequency :: "'ast \<Rightarrow> js_error + 'ast"
  mangle_names :: "'ast \<Rightarrow> js_error + 'ast"
  print_to_string :: "'ast \<Rightarrow> js_error + string"

text \<open>
  Line 96 assigns \<^verbatim>\<open>compressor\<close> without declaring it (\<^verbatim>\<open>ast\<close> on line 94 has its
  \<^verbatim>\<open>var\<close>). The module is not in strict mode, so the assignment creates or overwrites a
  property of the global object of the process. The global object is the state that
  \<^verbatim>\<open>compressCode\<close> threads: \<open>None\<close> is a global that was never assigned.
\<close>

record 'cmp globals =
  compressor :: "'cmp option"

text \<open>
  The body of the \<^verbatim>\<open>try\<close> block, lines 94-101: the text printed from the compressed
  tree, or the exception of the first stage that throws, with the global object as the
  block leaves it. Line 97 reads the global that line 96 has just written.
\<close>

definition try_compress ::
  "('ast, 'cmp) uglify \<Rightarrow> 'cmp globals \<Rightarrow> string \<Rightarrow> (js_error + string) \<times> 'cmp globals" where
  "try_compress U g code =
     (case parse U code of Inl e \<Rightarrow> (Inl e, g) | Inr ast \<Rightarrow>
      (case figure_out_scope U ast of Inl e \<Rightarrow> (Inl e, g) | Inr ast1 \<Rightarrow>
       (case Compressor U of Inl e \<Rightarrow> (Inl e, g) | Inr c \<Rightarrow>
        (let g' = g\<lparr>compressor := Some c\<rparr> in
         (case transform U ast1 c of Inl e \<Rightarrow> (Inl e, g') | Inr ast2 \<Rightarrow>
          (case figure_out_scope U ast2 of Inl e \<Rightarrow> (Inl e, g') | Inr ast3 \<Rightarrow>
           (case compute_char_frequency U ast3 of Inl e \<Rightarrow> (Inl e, g') | Inr ast4 \<Rightarrow>
            (case mangle_names U ast4 of Inl e \<Rightarrow> (Inl e, g') | Inr ast5 \<Rightarrow>
             (print_to_string U ast5, g')))))))))"

text \<open>
  \<^verbatim>\<open>compressCode\<close>: the \<^verbatim>\<open>catch\<close> clause is empty, so after an exception \<^verbatim>\<open>code\<close> still
  holds the argument.
\<close>

definition compressCode ::
  "('ast, 'cmp) uglify \<Rightarrow> 'cmp globals \<Rightarrow> string \<Rightarrow> string \<times> 'cmp globals" where
  "compressCode U g code =
     (case try_compress U g code of
        (Inl e, g') \<Rightarrow> (code, g')
      | (Inr compressed, g') \<Rightarrow> (compressed, g'))"

subsection \<open>The file system\<close>

text \<open>
  What \<^verbatim>\<open>fs.readFileSync\<close> and \<^verbatim>\<open>fs.writeFile\<close> see: the text of every file that exists,
  the paths at which a write fails, and the check that \<^verbatim>\<open>fs.writeFile\<close> makes of its
  path before it returns: the exception it throws at a path it refuses (current versions
  of Node refuse a path that holds a NUL character; early ones refuse none), or nothing.
\<close>

record filesystem =
  files :: "string \<rightharpoonup> string"
  unwritable :: "string list"
  validatePath :: "string \<Rightarrow> js_error option"

definition readFileSync :: "filesystem \<Rightarrow> string \<Rightarrow> js_error + string" where
  "readFileSync fs file =
     (case files fs file of
        None \<Rightarrow> Inl (Error ''ENOENT'')
      | Some text \<Rightarrow> Inr text)"

subsection \<open>\<^verbatim>\<open>concatFiles\<close> (lines 109-121)\<close>

text \<open>
  One step of the \<^verbatim>\<open>reduce\<close>: read the file, compress its text when asked to, and append
  the text and one space to the total (\<open>tot\<close>). An exception of \<^verbatim>\<open>readFileSync\<close> ends the whole
  reduction.
\<close>

fun concatFiles ::
  "('ast, 'cmp) uglify \<Rightarrow> filesystem \<Rightarrow> bool \<Rightarrow> string list \<Rightarrow> string \<Rightarrow> 'cmp globals
     \<Rightarrow> (js_error + string) \<times> 'cmp globals" where
  "concatFiles U fs compress [] tot g = (Inr tot, g)"
| "concatFiles U fs compress (file # rest) tot g =
     (case readFileSync fs file of
        Inl e \<Rightarrow> (Inl e, g)
      | Inr code \<Rightarrow>
          (if compress then
             (case compressCode U g code of
                (code', g') \<Rightarrow> concatFiles U fs compress rest (tot @ code' @ '' '') g')
           else concatFiles U fs compress rest (tot @ code @ '' '') g))"

subsection \<open>Twigs and \<^verbatim>\<open>getRuleString\<close> (lines 123-148)\<close>

text \<open>
  A twig is a tagged array of the parser: its first slot is the tag of the node, every
  later slot is a part, itself an array whose first slot is the kind of the part. The
  values that occur are strings, arrays, and \<^verbatim>\<open>undefined\<close> for a slot that is not there.
\<close>

datatype node = Undefined | Str string | Arr "node list"

text \<open>\<^verbatim>\<open>Array.prototype.join\<close> on the strings of the elements.\<close>

fun join :: "string \<Rightarrow> string list \<Rightarrow> string" where
  "join sep [] = []"
| "join sep [x] = x"
| "join sep (x # y # ys) = x @ sep @ join sep (y # ys)"

text \<open>
  The string that \<^verbatim>\<open>+\<close> makes of a value: \<^verbatim>\<open>undefined\<close> reads \<^verbatim>\<open>undefined\<close>, an array is
  its elements joined by commas, where an undefined element is empty.
\<close>

fun toString :: "node \<Rightarrow> string" where
  "toString Undefined = ''undefined''"
| "toString (Str s) = s"
| "toString (Arr xs) = join '','' (map (\<lambda>x. if x = Undefined then [] else toString x) xs)"

text \<open>
  The slots of a value: those of an array, the characters of a string; reading a slot of
  \<^verbatim>\<open>undefined\<close> throws a TypeError. A slot beyond the length reads \<^verbatim>\<open>undefined\<close>.
\<close>

fun slots :: "node \<Rightarrow> js_error + node list" where
  "slots Undefined = Inl (Error ''TypeError'')"
| "slots (Str s) = Inr (map (\<lambda>c. Str [c]) s)"
| "slots (Arr xs) = Inr xs"

definition index :: "node \<Rightarrow> nat \<Rightarrow> js_error + node" where
  "index v i =
     (case slots v of
        Inl e \<Rightarrow> Inl e
      | Inr xs \<Rightarrow> Inr (if i < length xs then xs ! i else Undefined))"

text \<open>
  \<^verbatim>\<open>JSON.stringify\<close> on these values: a string is quoted, with its quotes, backslashes
  and control characters escaped; an undefined slot of an array reads \<^verbatim>\<open>null\<close>. (It is
  called on a twig whose length has been read, which is not \<^verbatim>\<open>undefined\<close>.)
\<close>

definition hex_digit :: "nat \<Rightarrow> char" where
  "hex_digit n = ''0123456789abcdef'' ! (n mod 16)"

definition json_char :: "char \<Rightarrow> string" where
  "json_char c =
     (let n = (of_char c :: nat) in
      if n = 34 then [CHR 0x5C, CHR 0x22]
      else if n = 92 then [CHR 0x5C, CHR 0x5C]
      else if n = 8 then [CHR 0x5C, CHR ''b'']
      else if n = 12 then [CHR 0x5C, CHR ''f'']
      else if n = 10 then [CHR 0x5C, CHR ''n'']
      else if n = 13 then [CHR 0x5C, CHR ''r'']
      else if n = 9 then [CHR 0x5C, CHR ''t'']
      else if n < 32 then [CHR 0x5C, CHR ''u'', CHR ''0'', CHR ''0'', hex_digit (n div 16), hex_digit n]
      else [c])"

fun JSON_stringify :: "node \<Rightarrow> string" where
  "JSON_stringify Undefined = ''null''"
| "JSON_stringify (Str s) = [CHR 0x22] @ concat (map json_char s) @ [CHR 0x22]"
| "JSON_stringify (Arr xs) = ''['' @ join '','' (map JSON_stringify xs) @ '']''"

text \<open>
  The \<^verbatim>\<open>switch\<close> of lines 127-145: what one part adds to the rule string. The twig is
  needed for the text of the default case. Reading slot 0 of a part that is
  \<^verbatim>\<open>undefined\<close> throws; where slot 0 can be read, so can slot 1, which four of the cases
  use. The cases for a class and an attribute read slot 1 of that value in turn.
\<close>

definition rulePartString :: "node \<Rightarrow> node \<Rightarrow> js_error + string" where
  "rulePartString twig rulePart =
     (case index rulePart 0 of
        Inl e \<Rightarrow> Inl e
      | Inr kind \<Rightarrow>
          (case index rulePart 1 of
             Inl e \<Rightarrow> Inl e
           | Inr v \<Rightarrow>
               if kind = Str ''s'' then Inr (if v \<noteq> Str [CHR 0x0A] then toString v else [])
               else if kind = Str ''clazz'' then
                 (case index v 1 of Inl e \<Rightarrow> Inl e | Inr name \<Rightarrow> Inr (''.'' @ toString name))
               else if kind = Str ''shash'' then Inr (''#'' @ toString v)
               else if kind = Str ''ident'' then Inr (toString v)
               else if kind = Str ''attrib'' then
                 (case index v 1 of
                    Inl e \<Rightarrow> Inl e
                  | Inr name \<Rightarrow> Inr (''['' @ toString name @ '']''))
               else Inr (''Unsupported: '' @ JSON_stringify twig)))"

text \<open>The loop of lines 125-146 over the parts, from slot 1 on.\<close>

fun ruleParts :: "node \<Rightarrow> node list \<Rightarrow> string \<Rightarrow> js_error + string" where
  "ruleParts twig [] ruleString = Inr ruleString"
| "ruleParts twig (rulePart # rest) ruleString =
     (case rulePartString twig rulePart of
        Inl e \<Rightarrow> Inl e
      | Inr s \<Rightarrow> ruleParts twig rest (ruleString @ s))"

definition getRuleString :: "node \<Rightarrow> js_error + string" where
  "getRuleString twig =
     (case slots twig of
        Inl e \<Rightarrow> Inl e
      | Inr xs \<Rightarrow> ruleParts twig (drop 1 xs) [])"

subsection \<open>Options (lines 21-33)\<close>

text \<open>
  The documented options: \<^verbatim>\<open>minify\<close>, \<^verbatim>\<open>info\<close> and \<^verbatim>\<open>rejected\<close> are booleans,
  \<^verbatim>\<open>write\<close> is \<^verbatim>\<open>false\<close> or a file path; \<^verbatim>\<open>output\<close>, which the code reads, is handled
  like \<^verbatim>\<open>write\<close>. A field of an options object is \<open>None\<close> when the object has no such
  key (reading it gives \<^verbatim>\<open>undefined\<close>). The fields \<open>write_opt\<close> and
  \<open>output_opt\<close> are the keys \<^verbatim>\<open>write\<close> and \<^verbatim>\<open>output\<close>.
\<close>

datatype destination = NoPath | Path string

record purify_options =
  write_opt :: "destination option"
  minify :: "bool option"
  info :: "bool option"
  rejected :: "bool option"
  output_opt :: "destination option"

definition DEFAULT_OPTIONS :: purify_options where
  "DEFAULT_OPTIONS =
     \<lparr>write_opt = Some NoPath, minify = Some False, info = Some False,
      rejected = None, output_opt = None\<rparr>"

text \<open>The empty object \<^verbatim>\<open>{}\<close>.\<close>

definition empty_object :: purify_options where
  "empty_object = \<lparr>write_opt = None, minify = None, info = None, rejected = None, output_opt = None\<rparr>"

text \<open>
  \<^verbatim>\<open>_.extend\<close> with one source: every key of the source overrides the target's. (A key
  that is there with the value \<^verbatim>\<open>undefined\<close> is modelled as a key that is not there: the
  defaults it would override are all falsy, as \<^verbatim>\<open>undefined\<close> is.)
\<close>

definition override :: "'a option \<Rightarrow> 'a option \<Rightarrow> 'a option" where
  "override old new = (case new of None \<Rightarrow> old | Some v \<Rightarrow> Some v)"

definition underscore_extend :: "purify_options \<Rightarrow> purify_options \<Rightarrow> purify_options" where
  "underscore_extend target source =
     \<lparr>write_opt = override (write_opt target) (write_opt source),
      minify = override (minify target) (minify source),
      info = override (info target) (info source),
      rejected = override (rejected target) (rejected source),
      output_opt = override (output_opt target) (output_opt source)\<rparr>"

text \<open>
  Truthiness, as \<^verbatim>\<open>if\<close> and \<^verbatim>\<open>!\<close> test it: \<^verbatim>\<open>undefined\<close> and \<^verbatim>\<open>false\<close> are falsy, and so
  is the empty string. For a path option the truthy value is the path itself.
\<close>

definition truthy :: "bool option \<Rightarrow> bool" where
  "truthy v = (case v of None \<Rightarrow> False | Some b \<Rightarrow> b)"

definition truthy_path :: "destination option \<Rightarrow> string option" where
  "truthy_path v =
     (case v of
        None \<Rightarrow> None
      | Some NoPath \<Rightarrow> None
      | Some (Path p) \<Rightarrow> (if p = [] then None else Some p))"

text \<open>
  The third argument of \<^verbatim>\<open>purify\<close> is left out, an options object, or the callback
  itself. A callback takes the purified text; it may throw.
\<close>

datatype 'r options_arg =
  NoOptions
| OptionsObject purify_options
| OptionsFunction "string \<Rightarrow> js_error + 'r"

text \<open>Lines 28-33: the callback and the merged options that the rest of \<^verbatim>\<open>purify\<close> uses.\<close>

definition mergeOptions ::
  "'r options_arg \<Rightarrow> (string \<Rightarrow> js_error + 'r) option
     \<Rightarrow> purify_options \<times> (string \<Rightarrow> js_error + 'r) option" where
  "mergeOptions opts callback =
     (case opts of
        OptionsFunction f \<Rightarrow> (underscore_extend (underscore_extend empty_object DEFAULT_OPTIONS) empty_object, Some f)
      | NoOptions \<Rightarrow> (underscore_extend (underscore_extend empty_object DEFAULT_OPTIONS) empty_object, callback)
      | OptionsObject obj \<Rightarrow> (underscore_extend (underscore_extend empty_object DEFAULT_OPTIONS) obj, callback))"

subsection \<open>The corpus and the CSS text (lines 35-40)\<close>

text \<open>An argument is an array of file paths or a raw string.\<close>

datatype input = Files "string list" | Raw string

text \<open>Line 35.\<close>

definition cssString ::
  "('ast, 'cmp) uglify \<Rightarrow> filesystem \<Rightarrow> input \<Rightarrow> 'cmp globals
     \<Rightarrow> (js_error + string) \<times> 'cmp globals" where
  "cssString U fs css g =
     (case css of
        Files paths \<Rightarrow> concatFiles U fs False paths [] g
      | Raw text \<Rightarrow> (Inr text, g))"

text \<open>
  Lines 36-40. \<^verbatim>\<open>toLowerCase\<close> is the method of the strings of the language, with its
  Unicode case mapping: it is the parameter \<open>lower\<close>.
\<close>

definition content ::
  "(string \<Rightarrow> string) \<Rightarrow> ('ast, 'cmp) uglify \<Rightarrow> filesystem \<Rightarrow> input \<Rightarrow> 'cmp globals
     \<Rightarrow> (js_error + string) \<times> 'cmp globals" where
  "content lower U fs searchThrough g =
     (case (case searchThrough of
              Files paths \<Rightarrow> concatFiles U fs True paths [] g
            | Raw text \<Rightarrow> (case compressCode U g text of (code, g') \<Rightarrow> (Inr code, g'))) of
        (Inl e, g') \<Rightarrow> (Inl e, g')
      | (Inr text, g') \<Rightarrow> (Inr (lower text), g'))"

subsection \<open>Pruning the tree (lines 46-70)\<close>

text \<open>
  The CSS syntax tree and the content selector extraction are modules of their own.
  The constructor of the tree throws on CSS it cannot parse. \<^verbatim>\<open>filterSelectors\<close> and
  \<^verbatim>\<open>filterAtRules\<close> change the tree in place and return the rejected twigs: here they
  return the twigs and the changed tree.
\<close>

record 't css_syntax_tree =
  CssSyntaxTree :: "string \<Rightarrow> js_error + 't"
  classes :: "'t \<Rightarrow> string list"
  specialClasses :: "'t \<Rightarrow> string list"
  ids :: "'t \<Rightarrow> string list"
  specialIds :: "'t \<Rightarrow> string list"
  attrSelectors :: "'t \<Rightarrow> string list"
  filterSelectors ::
    "'t \<Rightarrow> string list \<Rightarrow> string list \<Rightarrow> string list \<Rightarrow> string list \<Rightarrow> node list \<times> 't"
  filterAtRules ::
    "'t \<Rightarrow> string list \<Rightarrow> string list \<Rightarrow> string list \<Rightarrow> string list \<Rightarrow> node list \<times> 't"
  toSrc :: "'t \<Rightarrow> string"

record 'x content_selector_extraction =
  ContentSelectorExtraction :: "string \<Rightarrow> 'x"
  filter_names :: "'x \<Rightarrow> string list \<Rightarrow> string list"
  filterBySearch :: "'x \<Rightarrow> string list \<Rightarrow> string list"

text \<open>Line 168.\<close>

definition htmlEls :: "string list" where
  "htmlEls =
   [''h1'', ''h2'', ''h3'', ''h4'', ''h5'', ''h6'', ''a'', ''abbr'', ''acronym'',
    ''address'', ''applet'', ''area'', ''article'', ''aside'', ''audio'', ''b'', ''base'',
    ''basefont'', ''bdi'', ''bdo'', ''bgsound'', ''big'', ''blink'', ''blockquote'',
    ''body'', ''br'', ''button'', ''canvas'', ''caption'', ''center'', ''cite'', ''code'',
    ''col'', ''colgroup'', ''command'', ''content'', ''data'', ''datalist'', ''dd'',
    ''del'', ''details'', ''dfn'', ''dialog'', ''dir'', ''div'', ''dl'', ''dt'',
    ''element'', ''em'', ''embed'', ''fieldset'', ''figcaption'', ''figure'', ''font'',
    ''footer'', ''form'', ''frame'', ''frameset'', ''head'', ''header'', ''hgroup'',
    ''hr'', ''html'', ''i'', ''iframe'', ''image'', ''img'', ''input'', ''ins'',
    ''isindex'', ''kbd'', ''keygen'', ''label'', ''legend'', ''li'', ''link'', ''listing'',
    ''main'', ''map'', ''mark'', ''marquee'', ''menu'', ''menuitem'', ''meta'', ''meter'',
    ''multicol'', ''nav'', ''nobr'', ''noembed'', ''noframes'', ''noscript'', ''object'',
    ''ol'', ''optgroup'', ''option'', ''output'', ''p'', ''param'', ''picture'',
    ''plaintext'', ''pre'', ''progress'', ''q'', ''rp'', ''rt'', ''rtc'', ''ruby'', ''s'',
    ''samp'', ''script'', ''section'', ''select'', ''shadow'', ''small'', ''source'',
    ''spacer'', ''span'', ''strike'', ''strong'', ''style'', ''sub'', ''summary'', ''sup'',
    ''table'', ''tbody'', ''td'', ''template'', ''textarea'', ''tfoot'', ''th'', ''thead'',
    ''time'', ''title'', ''tr'', ''track'', ''tt'', ''u'', ''ul'', ''var'', ''video'',
    ''wbr'', ''xmp'']"

text \<open>
  Lines 51-63: what is done with the tree and the extraction object: the tree after
  \<^verbatim>\<open>filterSelectors\<close> and then \<^verbatim>\<open>filterAtRules\<close>, with the twigs each of them rejected.
\<close>

definition filterTree ::
  "'t css_syntax_tree \<Rightarrow> 'x content_selector_extraction \<Rightarrow> 't \<Rightarrow> 'x
     \<Rightarrow> node list \<times> node list \<times> 't" where
  "filterTree T X tree extraction =
     (let classes1 = filter_names X extraction (classes T tree);
          specialClasses1 = filterBySearch X extraction (specialClasses T tree);
          ids1 = filter_names X extraction (ids T tree);
          specialIds1 = filterBySearch X extraction (specialIds T tree);
          attrSelectors1 = filterBySearch X extraction (attrSelectors T tree);
          classes2 = classes1 @ specialClasses1;
          ids2 = ids1 @ specialIds1;
          usedHtmlEls = filter_names X extraction htmlEls
      in (case filterSelectors T tree classes2 usedHtmlEls ids2 attrSelectors1 of
            (rejectedSelectorTwigs, tree1) \<Rightarrow>
              (case filterAtRules T tree1 classes2 usedHtmlEls ids2 attrSelectors1 of
                 (rejectedAtRuleTwigs, tree2) \<Rightarrow>
                   (rejectedSelectorTwigs, rejectedAtRuleTwigs, tree2))))"

text \<open>
  Lines 46-63: the tree is parsed from the CSS text (line 47), the extraction object is
  built from the corpus (line 50), and the tree is filtered.
\<close>

definition prunedTree ::
  "'t css_syntax_tree \<Rightarrow> 'x content_selector_extraction \<Rightarrow> string \<Rightarrow> string
     \<Rightarrow> js_error + (node list \<times> node list \<times> 't)" where
  "prunedTree T X css_text corpus =
     (case CssSyntaxTree T css_text of
        Inl e \<Rightarrow> Inl e
      | Inr tree \<Rightarrow> Inr (filterTree T X tree (ContentSelectorExtraction X corpus)))"

text \<open>Lines 65-70: the serialised tree, minified when the option asks for it.\<close>

definition purifiedSource :: "'t css_syntax_tree \<Rightarrow> (string \<Rightarrow> string) \<Rightarrow> purify_options \<Rightarrow> 't \<Rightarrow> string" where
  "purifiedSource T CleanCss_minify opts tree =
     (if truthy (minify opts) then CleanCss_minify (toSrc T tree) else toSrc T tree)"

subsection \<open>Reporting (lines 72-78 and 150-166)\<close>

text \<open>
  What \<^verbatim>\<open>purify\<close> does to the outside, in order: a line on \<^verbatim>\<open>console.error\<close>, a call of
  the caller's callback with its argument, a write of the data at the path that
  \<^verbatim>\<open>fs.writeFile\<close> has accepted and will carry out. The five lines of \<^verbatim>\<open>printInfo\<close> hold a floating-point ratio and a duration of
  the wall clock: they are one event that carries the two lengths.
\<close>

datatype event =
  ConsoleError string
| PrintInfo nat nat
| CallbackCalled string
| WriteFile string string

definition printInfo :: "nat \<Rightarrow> nat \<Rightarrow> event list" where
  "printInfo beginningLength endingLength = [PrintInfo beginningLength endingLength]"

text \<open>\<^verbatim>\<open>_.map(rejectedTwigs, getRuleString)\<close>: the first exception ends the map.\<close>

fun mapGetRuleString :: "node list \<Rightarrow> js_error + string list" where
  "mapGetRuleString [] = Inr []"
| "mapGetRuleString (twig # twigs) =
     (case getRuleString twig of
        Inl e \<Rightarrow> Inl e
      | Inr s \<Rightarrow>
          (case mapGetRuleString twigs of
             Inl e \<Rightarrow> Inl e
           | Inr ss \<Rightarrow> Inr (s # ss)))"

definition hashes :: string where
  "hashes = ''##################################''"

text \<open>
  \<^verbatim>\<open>printRejected\<close>: the lines logged and the exception, if \<^verbatim>\<open>getRuleString\<close> throws
  while the argument of the third line is computed.
\<close>

definition printRejected :: "node list \<Rightarrow> event list \<times> js_error option" where
  "printRejected rejectedTwigs =
     (case mapGetRuleString rejectedTwigs of
        Inl e \<Rightarrow> ([ConsoleError hashes, ConsoleError ''Rejected selectors:''], Some e)
      | Inr ss \<Rightarrow>
          ([ConsoleError hashes, ConsoleError ''Rejected selectors:'',
            ConsoleError (join [CHR 0x0A] ss), ConsoleError hashes], None))"

subsection \<open>Delivering the result (lines 80-87)\<close>

text \<open>What \<^verbatim>\<open>purify\<close> returns: nothing, the purified text, or what the callback returned.\<close>

datatype 'r return_value =
  ReturnsUndefined
| ReturnsSource string
| ReturnsCallbackResult 'r

text \<open>
  Lines 80-87. In the \<^verbatim>\<open>else\<close> branch \<^verbatim>\<open>fs.writeFile\<close> is called inside \<^verbatim>\<open>purify\<close>: when it
  refuses the path it throws, and so does \<^verbatim>\<open>purify\<close>; otherwise the write is pending and
  \<^verbatim>\<open>purify\<close> ends without a \<^verbatim>\<open>return\<close>.
\<close>

definition deliver ::
  "filesystem \<Rightarrow> purify_options \<Rightarrow> (string \<Rightarrow> js_error + 'r) option \<Rightarrow> string
     \<Rightarrow> event list \<times> (js_error + 'r return_value)" where
  "deliver fs opts callback source =
     (case truthy_path (output_opt opts) of
        None \<Rightarrow>
          (case callback of
             Some f \<Rightarrow>
               ([CallbackCalled source],
                (case f source of Inl e \<Rightarrow> Inl e | Inr r \<Rightarrow> Inr (ReturnsCallbackResult r)))
           | None \<Rightarrow> ([], Inr (ReturnsSource source)))
      | Some path \<Rightarrow>
          (case validatePath fs path of
             Some e \<Rightarrow> ([], Inl e)
           | None \<Rightarrow> ([WriteFile path source], Inr ReturnsUndefined)))"

text \<open>
  A write that \<^verbatim>\<open>fs.writeFile\<close> has accepted happens after \<^verbatim>\<open>purify\<close> has returned. It
  leaves the file system as it is and reports an error at an unwritable path, and stores
  the data otherwise. Its callback (lines 83-85) returns the error it is given; nothing
  receives what it returns.
\<close>

definition writeFile :: "filesystem \<Rightarrow> string \<Rightarrow> string \<Rightarrow> filesystem \<times> js_error option" where
  "writeFile fs path data =
     (if path \<in> set (unwritable fs) then (fs, Some (Error ''EACCES''))
      else (fs\<lparr>files := (files fs)(path \<mapsto> data)\<rparr>, None))"

definition writeFile_callback :: "js_error option \<Rightarrow> js_error option" where
  "writeFile_callback err = (case err of None \<Rightarrow> None | Some e \<Rightarrow> Some e)"

text \<open>
  The pending writes of a run, carried out in order: the file system they leave, and the
  values the write callbacks returned.
\<close>

fun completeWrites :: "filesystem \<Rightarrow> event list \<Rightarrow> filesystem \<times> js_error option list" where
  "completeWrites fs [] = (fs, [])"
| "completeWrites fs (WriteFile path data # evs) =
     (case writeFile fs path data of
        (fs', err) \<Rightarrow>
          (case completeWrites fs' evs of
             (fs'', dropped) \<Rightarrow> (fs'', writeFile_callback err # dropped)))"
| "completeWrites fs (ev # evs) = completeWrites fs evs"

subsection \<open>\<^verbatim>\<open>purify\<close> (lines 27-87)\<close>

text \<open>
  What \<^verbatim>\<open>purify\<close> calls beyond this file: the four modules it requires, and the
  \<^verbatim>\<open>toLowerCase\<close> of the language.
\<close>

record ('ast, 'cmp, 't, 'x) collaborators =
  UglifyJS :: "('ast, 'cmp) uglify"
  Tree :: "'t css_syntax_tree"
  Extraction :: "'x content_selector_extraction"
  CleanCss_minify :: "string \<Rightarrow> string"
  toLowerCase :: "string \<Rightarrow> string"

text \<open>
  Lines 35-70: the length of the CSS text, the rejected twigs (those of the selectors,
  then those of the at-rules) and the purified text \<^verbatim>\<open>source\<close>; or the exception of a
  read or of the parser.
\<close>

definition purified ::
  "('ast, 'cmp, 't, 'x) collaborators \<Rightarrow> filesystem \<Rightarrow> 'cmp globals \<Rightarrow> input \<Rightarrow> input
     \<Rightarrow> purify_options \<Rightarrow> (js_error + nat \<times> node list \<times> string) \<times> 'cmp globals" where
  "purified E fs g searchThrough css opts =
     (case cssString (UglifyJS E) fs css g of
        (Inl e, g1) \<Rightarrow> (Inl e, g1)
      | (Inr css_text, g1) \<Rightarrow>
          (case content (toLowerCase E) (UglifyJS E) fs searchThrough g1 of
             (Inl e, g2) \<Rightarrow> (Inl e, g2)
           | (Inr corpus, g2) \<Rightarrow>
               (case prunedTree (Tree E) (Extraction E) css_text corpus of
                  Inl e \<Rightarrow> (Inl e, g2)
                | Inr (rejectedSelectorTwigs, rejectedAtRuleTwigs, tree) \<Rightarrow>
                    (Inr (length css_text,
                          rejectedSelectorTwigs @ rejectedAtRuleTwigs,
                          purifiedSource (Tree E) (CleanCss_minify E) opts tree), g2))))"

text \<open>Lines 72-78: the lines logged, and the exception if \<^verbatim>\<open>printRejected\<close> throws.\<close>

definition report ::
  "purify_options \<Rightarrow> nat \<Rightarrow> node list \<Rightarrow> string \<Rightarrow> event list \<times> js_error option" where
  "report opts beginningLength rejectedTwigs source =
     (let logged = (if truthy (info opts)
                    then printInfo beginningLength (length source) else [])
      in if truthy (rejected opts)
         then (case printRejected rejectedTwigs of (lines, thrown) \<Rightarrow> (logged @ lines, thrown))
         else (logged, None))"

text \<open>
  The outcome of a call: the value returned or the exception thrown, the events in the
  order they happened, and the global object as the call leaves it.
\<close>

record ('r, 'cmp) outcome =
  returned :: "js_error + 'r return_value"
  effects :: "event list"
  globals_after :: "'cmp globals"

definition purify ::
  "('ast, 'cmp, 't, 'x) collaborators \<Rightarrow> filesystem \<Rightarrow> 'cmp globals \<Rightarrow> input \<Rightarrow> input
     \<Rightarrow> 'r options_arg \<Rightarrow> (string \<Rightarrow> js_error + 'r) option \<Rightarrow> ('r, 'cmp) outcome" where
  "purify E fs g searchThrough css opts_arg callback_arg =
     (case mergeOptions opts_arg callback_arg of
        (opts, callback) \<Rightarrow>
          (case purified E fs g searchThrough css opts of
             (Inl e, g') \<Rightarrow> \<lparr>returned = Inl e, effects = [], globals_after = g'\<rparr>
           | (Inr (beginningLength, rejectedTwigs, source), g') \<Rightarrow>
               (case report opts beginningLength rejectedTwigs source of
                  (logged, Some e) \<Rightarrow>
                    \<lparr>returned = Inl e, effects = logged, globals_after = g'\<rparr>
                | (logged, None) \<Rightarrow>
                    (case deliver fs opts callback source of
                       (delivered, r) \<Rightarrow>
                         \<lparr>returned = r, effects = logged @ delivered,
                          globals_after = g'\<rparr>))))"

subsection \<open>Example collaborators\<close>

text \<open>
  Small collaborators on which the model can be run: a compressor that rejects every
  text, one that keeps the text and drops its spaces, a tree that is the CSS text itself
  and rejects nothing, an extraction that finds every name, a minifier that drops
  spaces, a lower-casing of the letters A to Z that keeps every other character (what
  \<^verbatim>\<open>toLowerCase\<close> does on ASCII text), and a file system that refuses the paths that hold a
  NUL character.
\<close>

definition upper_letters :: string where
  "upper_letters = ''ABCDEFGHIJKLMNOPQRSTUVWXYZ''"

definition lower_letters :: string where
  "lower_letters = ''abcdefghijklmnopqrstuvwxyz''"

definition lower_char :: "char \<Rightarrow> char" where
  "lower_char c =
     (case map_of (zip upper_letters lower_letters) c of
        None \<Rightarrow> c
      | Some l \<Rightarrow> l)"

definition asciiLowerCase :: "string \<Rightarrow> string" where
  "asciiLowerCase s = map lower_char s"

definition throwingUglify :: "(string, unit) uglify" where
  "throwingUglify =
     \<lparr>parse = (\<lambda>code. Inl (Error ''SyntaxError'')),
      figure_out_scope = Inr, Compressor = Inr (),
      transform = (\<lambda>ast c. Inr ast), compute_char_frequency = Inr,
      mangle_names = Inr, print_to_string = Inr\<rparr>"

definition spaceDroppingUglify :: "(string, unit) uglify" where
  "spaceDroppingUglify =
     \<lparr>parse = Inr, figure_out_scope = Inr, Compressor = Inr (),
      transform = (\<lambda>ast c. Inr ast), compute_char_frequency = Inr,
      mangle_names = Inr, print_to_string = (\<lambda>ast. Inr (filter (\<lambda>c. c \<noteq> CHR '' '') ast))\<rparr>"

definition textTree :: "string css_syntax_tree" where
  "textTree =
     \<lparr>CssSyntaxTree = Inr, classes = (\<lambda>t. []), specialClasses = (\<lambda>t. []), ids = (\<lambda>t. []),
      specialIds = (\<lambda>t. []), attrSelectors = (\<lambda>t. []),
      filterSelectors = (\<lambda>t cs els is as. ([], t)),
      filterAtRules = (\<lambda>t cs els is as. ([], t)),
      toSrc = (\<lambda>t. t)\<rparr>"

definition findingExtraction :: "string content_selector_extraction" where
  "findingExtraction =
     \<lparr>ContentSelectorExtraction = (\<lambda>corpus. corpus),
      filter_names = (\<lambda>x names. names),
      filterBySearch = (\<lambda>x names. names)\<rparr>"

definition exampleCollaborators ::
  "(string, unit) uglify \<Rightarrow> (string, unit, string, string) collaborators" where
  "exampleCollaborators U =
     \<lparr>UglifyJS = U, Tree = textTree, Extraction = findingExtraction,
      CleanCss_minify = filter (\<lambda>c. c \<noteq> CHR '' ''),
      toLowerCase = asciiLowerCase\<rparr>"

definition exampleFiles :: filesystem where
  "exampleFiles =
     \<lparr>files = [''a.css'' \<mapsto> ''.a { }'', ''b.css'' \<mapsto> ''.b { }'', ''page.html'' \<mapsto> ''<P class=A>''],
      unwritable = [''/readonly/out.css''],
      validatePath =
        (\<lambda>path. if CHR 0x00 \<in> set path then Some (Error ''ERR_INVALID_ARG_VALUE'') else None)\<rparr>"

text \<open>A path that holds a NUL character.\<close>

definition nulPath :: string where
  "nulPath = [CHR ''a'', CHR 0x00, CHR ''b'']"

text \<open>A callback that returns the length of the text it is given.\<close>

definition lengthCallback :: "string \<Rightarrow> js_error + nat" where
  "lengthCallback source = Inr (length source)"

definition noGlobals :: "unit globals" where
  "noGlobals = \<lparr>compressor = None\<rparr>"

subsection \<open>Notions the properties are stated with\<close>

text \<open>
  Some stage of the \<^verbatim>\<open>try\<close> block of \<^verbatim>\<open>compressCode\<close> throws on this text: the stages
  in the order of lines 94-101.
\<close>

definition compression_throws :: "('ast, 'cmp) uglify \<Rightarrow> string \<Rightarrow> bool" where
  "compression_throws U code =
     (case parse U code of Inl e \<Rightarrow> True | Inr ast \<Rightarrow>
      (case figure_out_scope U ast of Inl e \<Rightarrow> True | Inr ast1 \<Rightarrow>
       (case Compressor U of Inl e \<Rightarrow> True | Inr c \<Rightarrow>
        (case transform U ast1 c of Inl e \<Rightarrow> True | Inr ast2 \<Rightarrow>
         (case figure_out_scope U ast2 of Inl e \<Rightarrow> True | Inr ast3 \<Rightarrow>
          (case compute_char_frequency U ast3 of Inl e \<Rightarrow> True | Inr ast4 \<Rightarrow>
           (case mangle_names U ast4 of Inl e \<Rightarrow> True | Inr ast5 \<Rightarrow>
            (case print_to_string U ast5 of Inl e \<Rightarrow> True | Inr printed \<Rightarrow> False))))))))"

text \<open>
  The corpus built from the raw text of the sources: lines 36-40 with no compression.
\<close>

definition rawCorpus ::
  "(string \<Rightarrow> string) \<Rightarrow> ('ast, 'cmp) uglify \<Rightarrow> filesystem \<Rightarrow> input \<Rightarrow> 'cmp globals
     \<Rightarrow> js_error + string" where
  "rawCorpus lower U fs searchThrough g =
     (case searchThrough of
        Files paths \<Rightarrow>
          (case fst (concatFiles U fs False paths [] g) of
             Inl e \<Rightarrow> Inl e
           | Inr text \<Rightarrow> Inr (lower text))
      | Raw text \<Rightarrow> Inr (lower text))"

text \<open>
  The parts that \<^verbatim>\<open>getRuleString\<close> tells apart, and the tagged arrays it reads them
  from. A child is an array with a string in slot 1, whatever its tag and its further
  slots are. A class part and an attribute part have a child in slot 1 (for an attribute
  written with a space after the bracket that child is the whitespace, not the
  identifier); an id part, a tag part and a whitespace part have a string in slot 1. A
  part of another kind is its tag and its further slots. Every part may have further
  slots.
\<close>

datatype child = Child node string "node list"

fun child_node :: "child \<Rightarrow> node" where
  "child_node (Child tag s others) = Arr (tag # Str s # others)"

fun child_text :: "child \<Rightarrow> string" where
  "child_text (Child tag s others) = s"

datatype part =
  Class child "node list"
| Id string "node list"
| Tag string "node list"
| Attribute child "node list"
| Whitespace string "node list"
| Other string "node list"

fun part_node :: "part \<Rightarrow> node" where
  "part_node (Class c others) = Arr (Str ''clazz'' # child_node c # others)"
| "part_node (Id name others) = Arr (Str ''shash'' # Str name # others)"
| "part_node (Tag name others) = Arr (Str ''ident'' # Str name # others)"
| "part_node (Attribute c others) = Arr (Str ''attrib'' # child_node c # others)"
| "part_node (Whitespace s others) = Arr (Str ''s'' # Str s # others)"
| "part_node (Other kind others) = Arr (Str kind # others)"

text \<open>A twig: the tag of the node in slot 0, the parts from slot 1 on.\<close>

definition twig_node :: "node \<Rightarrow> part list \<Rightarrow> node" where
  "twig_node tag parts = Arr (tag # map part_node parts)"

text \<open>The kinds that have a case of their own in the \<^verbatim>\<open>switch\<close>.\<close>

definition supported_kinds :: "string list" where
  "supported_kinds = [''s'', ''clazz'', ''shash'', ''ident'', ''attrib'']"

fun well_tagged :: "part \<Rightarrow> bool" where
  "well_tagged (Other kind others) = (kind \<notin> set supported_kinds)"
| "well_tagged p = True"

text \<open>
  The fragment of a part in the words of the specification: the decoration of its kind,
  whitespace passed through.
\<close>

fun fragment_spec :: "part \<Rightarrow> string" where
  "fragment_spec (Class c others) = ''.'' @ child_text c"
| "fragment_spec (Id name others) = ''#'' @ name"
| "fragment_spec (Tag name others) = name"
| "fragment_spec (Attribute c others) = ''['' @ child_text c @ '']''"
| "fragment_spec (Whitespace s others) = s"
| "fragment_spec (Other kind others) = []"

text \<open>
  The fragment of a part as the \<^verbatim>\<open>switch\<close> computes it: a whitespace part that is one
  newline adds nothing, a part of another kind adds the JSON text of the whole twig.
\<close>

fun fragment :: "node \<Rightarrow> part \<Rightarrow> string" where
  "fragment twig (Class c others) = ''.'' @ child_text c"
| "fragment twig (Id name others) = ''#'' @ name"
| "fragment twig (Tag name others) = name"
| "fragment twig (Attribute c others) = ''['' @ child_text c @ '']''"
| "fragment twig (Whitespace s others) = (if s = [CHR 0x0A] then [] else s)"
| "fragment twig (Other kind others) = ''Unsupported: '' @ JSON_stringify twig"

text \<open>The texts of the files at the given paths, when all of them exist.\<close>

fun readAll :: "filesystem \<Rightarrow> string list \<Rightarrow> string list option" where
  "readAll fs [] = Some []"
| "readAll fs (path # paths) =
     (case files fs path of
        None \<Rightarrow> None
      | Some text \<Rightarrow>
          (case readAll fs paths of
             None \<Rightarrow> None
           | Some texts \<Rightarrow> Some (text # texts)))"

text \<open>The events that are calls of \<^verbatim>\<open>fs.writeFile\<close>.\<close>

fun is_write :: "event \<Rightarrow> bool" where
  "is_write (WriteFile path data) = True"
| "is_write ev = False"

section \<open>Properties\<close>

subsection \<open>Compression failures\<close>

lemma try_compress_fst_globals:
  "fst (try_compress U g code) = fst (try_compress U g' code)"
  by (simp add: try_compress_def Let_def split: sum.splits)

lemma compressCode_fst_globals:
  "fst (compressCode U g code) = fst (compressCode U g' code)"
  using try_compress_fst_globals [of U g code g']
  by (cases "try_compress U g code"; cases "try_compress U g' code")
     (auto simp: compressCode_def split: sum.splits)

lemma compression_throws_iff:
  "compression_throws U code \<longleftrightarrow> (\<exists>e. fst (try_compress U g code) = Inl e)"
  by (simp add: compression_throws_def try_compress_def Let_def split: sum.splits)

lemma compressCode_throws:
  "compression_throws U code \<Longrightarrow> fst (compressCode U g code) = code"
  using compression_throws_iff [of U code g]
  by (cases "try_compress U g code") (auto simp: compressCode_def split: sum.splits)

lemma concatFiles_throws_raw:
  "(\<forall>p\<in>set paths. \<forall>t. files fs p = Some t \<longrightarrow> compression_throws U t) \<Longrightarrow>
   fst (concatFiles U fs True paths tot g) = fst (concatFiles U fs False paths tot g')"
proof (induction paths arbitrary: tot g)
  case Nil
  show ?case by simp
next
  case (Cons p paths)
  show ?case
  proof (cases "files fs p")
    case None
    then show ?thesis by (simp add: readFileSync_def)
  next
    case (Some t)
    with Cons.prems have thr: "compression_throws U t" by simp
    obtain c g1 where cc: "compressCode U g t = (c, g1)" by (cases "compressCode U g t")
    with compressCode_throws [OF thr, of g] have "c = t" by simp
    with Cons.IH [of "tot @ t @ '' ''" g1] Cons.prems Some cc show ?thesis
      by (simp add: readFileSync_def)
  qed
qed

text \<open>
  C1. When the compressor throws at any stage on the text of a content source,
  \<^verbatim>\<open>compressCode\<close> returns the text unchanged; so the corpus of a raw string on which
  compression fails, and of files on all of which it fails, is the corpus built from the
  raw text.
\<close>

theorem compressCode_failure_keeps_raw_text:
  assumes "compression_throws U code"
  shows "fst (compressCode U g code) = code
       \<and> fst (content lower U fs (Raw code) g) = rawCorpus lower U fs (Raw code) g
       \<and> ((\<forall>p\<in>set paths. \<forall>t. files fs p = Some t \<longrightarrow> compression_throws U t)
            \<longrightarrow> fst (content lower U fs (Files paths) g) = rawCorpus lower U fs (Files paths) g)"
proof (intro conjI impI)
  show c: "fst (compressCode U g code) = code"
    using assms by (rule compressCode_throws)
  show "fst (content lower U fs (Raw code) g) = rawCorpus lower U fs (Raw code) g"
    using c by (cases "compressCode U g code") (simp add: content_def rawCorpus_def)
  assume "\<forall>p\<in>set paths. \<forall>t. files fs p = Some t \<longrightarrow> compression_throws U t"
  from concatFiles_throws_raw [OF this, of "[]" g g]
  show "fst (content lower U fs (Files paths) g) = rawCorpus lower U fs (Files paths) g"
    by (cases "concatFiles U fs True paths [] g"; cases "concatFiles U fs False paths [] g")
       (auto simp: content_def rawCorpus_def split: sum.splits)
qed


lemma throwingUglify_throws: "compression_throws throwingUglify t"
  by (simp add: compression_throws_def throwingUglify_def)

theorem compressCode_failure_keeps_raw_text_witness:
  "compression_throws throwingUglify ''<P class=A>''
   \<and> fst (compressCode throwingUglify noGlobals ''<P class=A>'') = ''<P class=A>''
   \<and> fst (content asciiLowerCase throwingUglify exampleFiles (Raw ''<P class=A>'') noGlobals) = Inr ''<p class=a>''
   \<and> fst (content asciiLowerCase throwingUglify exampleFiles (Files [''page.html'']) noGlobals)
       = Inr ''<p class=a> ''"
proof -
  have h: "compression_throws throwingUglify ''<P class=A>''"
    by (rule throwingUglify_throws)
  have hs: "\<forall>p\<in>set [''page.html'']. \<forall>t. files exampleFiles p = Some t
              \<longrightarrow> compression_throws throwingUglify t"
    by (simp add: throwingUglify_throws)
  have raw1: "rawCorpus asciiLowerCase throwingUglify exampleFiles (Raw ''<P class=A>'') noGlobals
                = Inr ''<p class=a>''"
    by (simp add: rawCorpus_def asciiLowerCase_def lower_char_def upper_letters_def
        lower_letters_def)
  have raw2: "rawCorpus asciiLowerCase throwingUglify exampleFiles (Files [''page.html'']) noGlobals
                = Inr ''<p class=a> ''"
    by (simp add: rawCorpus_def readFileSync_def exampleFiles_def asciiLowerCase_def
        lower_char_def upper_letters_def lower_letters_def)
  from compressCode_failure_keeps_raw_text
         [OF h, where g = noGlobals and fs = exampleFiles and paths = "[''page.html'']"
            and lower = asciiLowerCase]
       hs raw1 raw2 h
  show ?thesis by simp
qed

subsection \<open>The corpus and the CSS text\<close>

lemma concatFiles_fst_globals:
  "fst (concatFiles U fs c paths tot g) = fst (concatFiles U fs c paths tot g')"
proof (induction paths arbitrary: tot g g')
  case Nil
  show ?case by simp
next
  case (Cons p paths)
  show ?case
  proof (cases "readFileSync fs p")
    case (Inl e)
    then show ?thesis by simp
  next
    case (Inr t)
    obtain c1 g1 where a: "compressCode U g t = (c1, g1)" by (cases "compressCode U g t")
    obtain c2 g2 where b: "compressCode U g' t = (c2, g2)" by (cases "compressCode U g' t")
    from compressCode_fst_globals [of U g t g'] a b have "c1 = c2" by simp
    with Inr a b Cons.IH [of "tot @ c1 @ '' ''" g1 g2] Cons.IH [of "tot @ t @ '' ''" g g']
    show ?thesis by (cases c) simp_all
  qed
qed



lemma concatFiles_texts:
  "readAll fs paths = Some texts \<Longrightarrow>
   fst (concatFiles U fs c paths tot g)
     = Inr (tot @ concat (map (\<lambda>t. (if c then fst (compressCode U g0 t) else t) @ '' '') texts))"
proof (induction paths arbitrary: tot g texts)
  case Nil
  then show ?case by simp
next
  case (Cons p paths)
  from Cons.prems obtain t ts where t: "files fs p = Some t" and ts: "readAll fs paths = Some ts"
    and texts: "texts = t # ts"
    by (auto split: option.splits)
  obtain c1 g1 where a: "compressCode U g t = (c1, g1)" by (cases "compressCode U g t")
  from compressCode_fst_globals [of U g t g0] a have c1: "c1 = fst (compressCode U g0 t)" by simp
  from Cons.IH [OF ts, of "tot @ c1 @ '' ''" g1] Cons.IH [OF ts, of "tot @ t @ '' ''" g]
  show ?case using t texts a c1 by (cases c) (simp_all add: readFileSync_def)
qed









text \<open>
  C6, as the code has it. For an array of CSS files that all exist, the CSS text is the
  concatenation of the texts of the files, each followed by one space (so a space stands
  between consecutive sources and one more after the last); a raw CSS string is taken as
  given.
\<close>

theorem cssString_concatenation:
  "(readAll fs paths = Some texts \<longrightarrow>
      fst (cssString U fs (Files paths) g) = Inr (concat (map (\<lambda>t. t @ '' '') texts)))
   \<and> fst (cssString U fs (Raw text) g) = Inr text"
proof (intro conjI impI)
  assume "readAll fs paths = Some texts"
  from concatFiles_texts [OF this, of U False "[]" g g]
  show "fst (cssString U fs (Files paths) g) = Inr (concat (map (\<lambda>t. t @ '' '') texts))"
    by (simp add: cssString_def)
next
  show "fst (cssString U fs (Raw text) g) = Inr text"
    by (simp add: cssString_def)
qed

theorem cssString_concatenation_witness:
  "readAll exampleFiles [''a.css'', ''b.css''] = Some [''.a { }'', ''.b { }'']
   \<and> fst (cssString throwingUglify exampleFiles (Files [''a.css'', ''b.css'']) noGlobals)
       = Inr ''.a { } .b { } ''"
proof -
  have h: "readAll exampleFiles [''a.css'', ''b.css''] = Some [''.a { }'', ''.b { }'']"
    by (simp add: exampleFiles_def)
  from cssString_concatenation
         [of exampleFiles "[''a.css'', ''b.css'']" "[''.a { }'', ''.b { }'']"
             throwingUglify noGlobals "[]"] h
  show ?thesis by simp
qed

text \<open>
  C6 as stated puts a space only between consecutive sources: for the one file
  \<^verbatim>\<open>a.css\<close> the CSS text ends in a space, and the texts joined by a space do not.
\<close>

theorem cssString_separator_counterexample:
  "readAll exampleFiles [''a.css''] = Some [''.a { }'']
   \<and> fst (cssString throwingUglify exampleFiles (Files [''a.css'']) noGlobals) = Inr ''.a { } ''
   \<and> fst (cssString throwingUglify exampleFiles (Files [''a.css'']) noGlobals)
       \<noteq> Inr (join '' '' [''.a { }''])"
  by (simp add: exampleFiles_def cssString_def readFileSync_def)

subsection \<open>Rendering a twig\<close>

lemma rulePartString_part:
  "well_tagged p \<Longrightarrow> rulePartString twig (part_node p) = Inr (fragment twig p)"
proof (cases p)
  case (Class c others)
  then show ?thesis by (cases c) (simp add: rulePartString_def index_def)
next
  case (Attribute c others)
  then show ?thesis by (cases c) (simp add: rulePartString_def index_def)
next
  case (Other kind others)
  assume "well_tagged p"
  with Other show ?thesis
    by (auto simp: rulePartString_def index_def supported_kinds_def)
qed (simp_all add: rulePartString_def index_def)

lemma ruleParts_parts:
  "\<forall>p\<in>set parts. well_tagged p \<Longrightarrow>
   ruleParts twig (map part_node parts) ruleString
     = Inr (ruleString @ concat (map (fragment twig) parts))"
  by (induction parts arbitrary: ruleString) (simp_all add: rulePartString_part)

text \<open>
  C7, as the code has it. For every twig, \<^verbatim>\<open>getRuleString\<close> returns the concatenation,
  in part order, of \<^verbatim>\<open>.\<close> and the name for a class part, \<^verbatim>\<open>#\<close> and the name for an id
  part, the bare name for a tag part, the text in brackets for an attribute part, the
  text of a whitespace part unless that text is one newline, which adds nothing, and
  \<^verbatim>\<open>Unsupported: \<close> with the JSON text of the twig for a part of a kind that has no case
  in the \<^verbatim>\<open>switch\<close>. The name of a class and the text of an attribute are the string in
  slot 1 of the first child of the part, whatever that child is; the name of an id or a
  tag and the text of a whitespace part are the string in slot 1 of the part.
\<close>

theorem getRuleString_fragments:
  "\<forall>p\<in>set parts. well_tagged p \<Longrightarrow>
   getRuleString (twig_node tag parts)
     = Inr (concat (map (fragment (twig_node tag parts)) parts))"
  by (simp add: getRuleString_def twig_node_def ruleParts_parts)

theorem getRuleString_fragments_witness:
  "list_all well_tagged
     [Tag ''div'' [], Whitespace '' '' [], Class (Child (Str ''ident'') ''x'' []) [],
      Id ''y'' [],
      Attribute (Child (Str ''ident'') ''href'' []) [Arr [Str ''attrselector'', Str ''='']],
      Attribute (Child (Str ''s'') '' '' []) [Arr [Str ''ident'', Str ''href'']],
      Other ''pseudoc'' [Arr [Str ''ident'', Str ''hover'']]]
   \<and> getRuleString
        (twig_node (Str ''simpleselector'')
           [Tag ''div'' [], Whitespace '' '' [], Class (Child (Str ''ident'') ''x'' []) [],
            Id ''y'' [],
            Attribute (Child (Str ''ident'') ''href'' []) [Arr [Str ''attrselector'', Str ''='']],
            Attribute (Child (Str ''s'') '' '' []) [Arr [Str ''ident'', Str ''href'']],
            Other ''pseudoc'' [Arr [Str ''ident'', Str ''hover'']]])
       = Inr (''div .x#y[href][ ]Unsupported: '' @
              JSON_stringify
                (twig_node (Str ''simpleselector'')
                   [Tag ''div'' [], Whitespace '' '' [],
                    Class (Child (Str ''ident'') ''x'' []) [], Id ''y'' [],
                    Attribute (Child (Str ''ident'') ''href'' [])
                      [Arr [Str ''attrselector'', Str ''='']],
                    Attribute (Child (Str ''s'') '' '' []) [Arr [Str ''ident'', Str ''href'']],
                    Other ''pseudoc'' [Arr [Str ''ident'', Str ''hover'']]]))"
proof -
  have h: "\<forall>p\<in>set [Tag ''div'' [], Whitespace '' '' [],
               Class (Child (Str ''ident'') ''x'' []) [], Id ''y'' [],
               Attribute (Child (Str ''ident'') ''href'' [])
                 [Arr [Str ''attrselector'', Str ''='']],
               Attribute (Child (Str ''s'') '' '' []) [Arr [Str ''ident'', Str ''href'']],
               Other ''pseudoc'' [Arr [Str ''ident'', Str ''hover'']]]. well_tagged p"
    by (simp add: supported_kinds_def)
  from getRuleString_fragments [OF h, of "Str ''simpleselector''"] h
  show ?thesis by (simp add: supported_kinds_def)
qed

text \<open>
  C7 as stated passes every whitespace part through: on the twig of \<^verbatim>\<open>a\<close>, a newline
  and \<^verbatim>\<open>.b\<close> the code returns \<^verbatim>\<open>a.b\<close>, without the newline.
\<close>

theorem getRuleString_newline_counterexample:
  "getRuleString
     (twig_node (Str ''simpleselector'')
        [Tag ''a'' [], Whitespace [CHR 0x0A] [], Class (Child (Str ''ident'') ''b'' []) []])
     = Inr ''a.b''
   \<and> concat (map fragment_spec
               [Tag ''a'' [], Whitespace [CHR 0x0A] [],
                Class (Child (Str ''ident'') ''b'' []) []])
       = ''a'' @ [CHR 0x0A] @ ''.b''
   \<and> getRuleString
        (twig_node (Str ''simpleselector'')
           [Tag ''a'' [], Whitespace [CHR 0x0A] [], Class (Child (Str ''ident'') ''b'' []) []])
       \<noteq> Inr (concat (map fragment_spec
                        [Tag ''a'' [], Whitespace [CHR 0x0A] [],
                         Class (Child (Str ''ident'') ''b'' []) []]))"
  by (simp add: getRuleString_def twig_node_def rulePartString_def index_def)

subsection \<open>Delivering the purified text\<close>

lemma purify_reaches_delivery:
  assumes "mergeOptions oa ca = (opts, cb)"
    and "fst (purified E fs g st css opts) = Inr (n, twigs, source)"
    and "snd (report opts n twigs source) = None"
  shows "returned (purify E fs g st css oa ca) = snd (deliver fs opts cb source)"
    and "effects (purify E fs g st css oa ca)
           = fst (report opts n twigs source) @ fst (deliver fs opts cb source)"
  using assms
  by (cases "purified E fs g st css opts"; cases "report opts n twigs source";
      cases "deliver fs opts cb source"; simp add: purify_def)+

lemma printRejected_logs: "ev \<in> set (fst (printRejected twigs)) \<Longrightarrow> \<exists>l. ev = ConsoleError l"
  by (auto simp: printRejected_def split: sum.splits)

lemma report_logs:
  assumes "ev \<in> set (fst (report opts n twigs source))"
  shows "\<not> is_write ev \<and> (\<forall>s. ev \<noteq> CallbackCalled s)"
proof -
  from assms have "ev \<in> set (printInfo n (length source)) \<or> ev \<in> set (fst (printRejected twigs))"
    by (cases "printRejected twigs") (auto simp: report_def Let_def split: if_splits)
  then show ?thesis
    by (auto simp: printInfo_def dest: printRejected_logs)
qed

lemma completeWrites_skip:
  "\<forall>ev\<in>set evs. \<not> is_write ev \<Longrightarrow> completeWrites fs (evs @ rest) = completeWrites fs rest"
proof (induction evs)
  case Nil
  show ?case by simp
next
  case (Cons ev evs)
  then show ?case by (cases ev) simp_all
qed

text \<open>The definitions that a run of the model on concrete arguments unfolds.\<close>

lemmas run_defs =
  mergeOptions_def underscore_extend_def override_def empty_object_def DEFAULT_OPTIONS_def
  purified_def cssString_def content_def readFileSync_def compressCode_def try_compress_def
  prunedTree_def filterTree_def purifiedSource_def truthy_def truthy_path_def report_def printInfo_def
  asciiLowerCase_def lower_char_def upper_letters_def lower_letters_def

lemmas example_defs =
  exampleCollaborators_def throwingUglify_def spaceDroppingUglify_def textTree_def
  findingExtraction_def exampleFiles_def noGlobals_def

text \<open>
  C2, as the code has it. Whenever \<^verbatim>\<open>purify\<close> reaches line 80 with the purified text
  \<open>source\<close>: with no destination path and no callback it returns \<open>source\<close>; with no
  destination path and a callback it calls the callback with \<open>source\<close> and returns what
  the callback returns; with a destination path that \<^verbatim>\<open>fs.writeFile\<close> accepts, the write
  of \<open>source\<close> at the path is pending, and once it is carried out at a writable path the
  file holds \<open>source\<close>; with a destination path that \<^verbatim>\<open>fs.writeFile\<close> refuses,
  \<^verbatim>\<open>purify\<close> throws the exception of \<^verbatim>\<open>fs.writeFile\<close> and no write is pending. The
  callback is the fourth argument, or the third when that is a function (then there are
  no options, so no destination path).
\<close>

theorem purify_delivers_source:
  assumes "mergeOptions oa ca = (opts, cb)"
    and "fst (purified E fs g st css opts) = Inr (n, twigs, source)"
    and "snd (report opts n twigs source) = None"
  shows "(truthy_path (output_opt opts) = None \<and> cb = None \<longrightarrow>
            returned (purify E fs g st css oa ca) = Inr (ReturnsSource source))
       \<and> (\<forall>f. truthy_path (output_opt opts) = None \<and> cb = Some f \<longrightarrow>
            CallbackCalled source \<in> set (effects (purify E fs g st css oa ca))
            \<and> returned (purify E fs g st css oa ca)
                = (case f source of Inl e \<Rightarrow> Inl e | Inr r \<Rightarrow> Inr (ReturnsCallbackResult r)))
       \<and> (\<forall>path. truthy_path (output_opt opts) = Some path \<and> validatePath fs path = None \<longrightarrow>
            WriteFile path source \<in> set (effects (purify E fs g st css oa ca))
            \<and> (path \<notin> set (unwritable fs') \<longrightarrow>
                 files (fst (completeWrites fs' (effects (purify E fs g st css oa ca)))) path
                   = Some source))
       \<and> (\<forall>path e. truthy_path (output_opt opts) = Some path \<and> validatePath fs path = Some e \<longrightarrow>
            returned (purify E fs g st css oa ca) = Inl e
            \<and> (\<forall>p d. WriteFile p d \<notin> set (effects (purify E fs g st css oa ca))))
       \<and> (\<forall>f. oa = OptionsFunction f \<longrightarrow>
            CallbackCalled source \<in> set (effects (purify E fs g st css oa ca))
            \<and> returned (purify E fs g st css oa ca)
                = (case f source of Inl e \<Rightarrow> Inl e | Inr r \<Rightarrow> Inr (ReturnsCallbackResult r)))
       \<and> ((\<forall>f. oa \<noteq> OptionsFunction f) \<longrightarrow> cb = ca)"
proof -
  note r = purify_reaches_delivery [OF assms]
  have fn: "cb = Some f \<and> truthy_path (output_opt opts) = None" if "oa = OptionsFunction f" for f
    using that assms(1)
    by (auto simp: mergeOptions_def underscore_extend_def override_def empty_object_def
        DEFAULT_OPTIONS_def truthy_path_def)
  have obj: "cb = ca" if "\<forall>f. oa \<noteq> OptionsFunction f"
    using that assms(1) by (cases oa) (auto simp: mergeOptions_def)
  have skip: "\<forall>ev\<in>set (fst (report opts n twigs source)). \<not> is_write ev"
    using report_logs by blast
  have nowrite: "WriteFile p d \<notin> set (fst (report opts n twigs source))" for p d
    using report_logs [of "WriteFile p d" opts n twigs source] by auto
  have main: "(truthy_path (output_opt opts) = None \<and> cb = None \<longrightarrow>
            returned (purify E fs g st css oa ca) = Inr (ReturnsSource source))
       \<and> (\<forall>f. truthy_path (output_opt opts) = None \<and> cb = Some f \<longrightarrow>
            CallbackCalled source \<in> set (effects (purify E fs g st css oa ca))
            \<and> returned (purify E fs g st css oa ca)
                = (case f source of Inl e \<Rightarrow> Inl e | Inr r \<Rightarrow> Inr (ReturnsCallbackResult r)))
       \<and> (\<forall>path. truthy_path (output_opt opts) = Some path \<and> validatePath fs path = None \<longrightarrow>
            WriteFile path source \<in> set (effects (purify E fs g st css oa ca))
            \<and> (path \<notin> set (unwritable fs') \<longrightarrow>
                 files (fst (completeWrites fs' (effects (purify E fs g st css oa ca)))) path
                   = Some source))
       \<and> (\<forall>path e. truthy_path (output_opt opts) = Some path \<and> validatePath fs path = Some e \<longrightarrow>
            returned (purify E fs g st css oa ca) = Inl e
            \<and> (\<forall>p d. WriteFile p d \<notin> set (effects (purify E fs g st css oa ca))))"
    by (auto simp: r deliver_def completeWrites_skip [OF skip] writeFile_def nowrite)
  with fn obj show ?thesis by blast
qed

theorem purify_delivers_source_witness:
  "returned (purify (exampleCollaborators throwingUglify) exampleFiles noGlobals
               (Files [''page.html'']) (Files [''a.css'', ''b.css''])
               (NoOptions :: nat options_arg) None)
     = Inr (ReturnsSource ''.a { } .b { } '')
   \<and> CallbackCalled ''.a{}.b{}''
       \<in> set (effects (purify (exampleCollaborators throwingUglify) exampleFiles noGlobals
                          (Files [''page.html'']) (Files [''a.css'', ''b.css''])
                          (OptionsObject (empty_object\<lparr>minify := Some True\<rparr>))
                          (Some (\<lambda>s. Inr (length s)))))
   \<and> returned (purify (exampleCollaborators throwingUglify) exampleFiles noGlobals
                 (Files [''page.html'']) (Files [''a.css'', ''b.css''])
                 (OptionsObject (empty_object\<lparr>minify := Some True\<rparr>))
                 (Some (\<lambda>s. Inr (length s))))
     = Inr (ReturnsCallbackResult 8)
   \<and> WriteFile ''out.css'' ''.a { } .b { } ''
       \<in> set (effects (purify (exampleCollaborators throwingUglify) exampleFiles noGlobals
                          (Files [''page.html'']) (Files [''a.css'', ''b.css''])
                          (OptionsObject (empty_object\<lparr>output_opt := Some (Path ''out.css'')\<rparr>)
                             :: nat options_arg)
                          None))
   \<and> files (fst (completeWrites exampleFiles
                   (effects (purify (exampleCollaborators throwingUglify) exampleFiles noGlobals
                               (Files [''page.html'']) (Files [''a.css'', ''b.css''])
                               (OptionsObject (empty_object\<lparr>output_opt := Some (Path ''out.css'')\<rparr>)
                                  :: nat options_arg)
                               None)))) ''out.css''
     = Some ''.a { } .b { } ''
   \<and> returned (purify (exampleCollaborators throwingUglify) exampleFiles noGlobals
                 (Files [''page.html'']) (Files [''a.css'', ''b.css''])
                 (OptionsObject (empty_object\<lparr>output_opt := Some (Path nulPath)\<rparr>)
                    :: nat options_arg)
                 None)
     = Inl (Error ''ERR_INVALID_ARG_VALUE'')
   \<and> returned (purify (exampleCollaborators throwingUglify) exampleFiles noGlobals
                 (Files [''page.html'']) (Files [''a.css'', ''b.css''])
                 (OptionsFunction lengthCallback) None)
     = Inr (ReturnsCallbackResult 14)"
proof -
  let ?E = "exampleCollaborators throwingUglify"
  let ?st = "Files [''page.html'']"
  let ?css = "Files [''a.css'', ''b.css'']"
  let ?min = "OptionsObject (empty_object\<lparr>minify := Some True\<rparr>) :: nat options_arg"
  let ?out = "OptionsObject (empty_object\<lparr>output_opt := Some (Path ''out.css'')\<rparr>) :: nat options_arg"
  let ?f = "\<lambda>s. Inr (length s) :: js_error + nat"
  let ?nul = "OptionsObject (empty_object\<lparr>output_opt := Some (Path nulPath)\<rparr>) :: nat options_arg"
  have a: "mergeOptions (NoOptions :: nat options_arg) None
             = (DEFAULT_OPTIONS, None)"
    by (simp add: run_defs)
  have a2: "fst (purified ?E exampleFiles noGlobals ?st ?css DEFAULT_OPTIONS)
             = Inr (14, [], ''.a { } .b { } '')"
    by (simp add: run_defs example_defs)
  have a3: "snd (report DEFAULT_OPTIONS 14 [] ''.a { } .b { } '') = None"
    by (simp add: run_defs)
  have b: "mergeOptions ?min (Some ?f)
             = (DEFAULT_OPTIONS\<lparr>minify := Some True\<rparr>, Some ?f)"
    by (simp add: run_defs)
  have b2: "fst (purified ?E exampleFiles noGlobals ?st ?css
                   (DEFAULT_OPTIONS\<lparr>minify := Some True\<rparr>))
             = Inr (14, [], ''.a{}.b{}'')"
    by (simp add: run_defs example_defs)
  have b3: "snd (report (DEFAULT_OPTIONS\<lparr>minify := Some True\<rparr>)
                   14 [] ''.a{}.b{}'') = None"
    by (simp add: run_defs)
  have c: "mergeOptions ?out None
             = (DEFAULT_OPTIONS\<lparr>output_opt := Some (Path ''out.css'')\<rparr>,
                None)"
    by (simp add: run_defs)
  have c2: "fst (purified ?E exampleFiles noGlobals ?st ?css
                   (DEFAULT_OPTIONS\<lparr>output_opt := Some (Path ''out.css'')\<rparr>))
             = Inr (14, [], ''.a { } .b { } '')"
    by (simp add: run_defs example_defs)
  have c3: "snd (report (DEFAULT_OPTIONS\<lparr>output_opt := Some (Path ''out.css'')\<rparr>)
                   14 [] ''.a { } .b { } '') = None"
    by (simp add: run_defs)
  have w: "''out.css'' \<notin> set (unwritable exampleFiles)"
    and v: "validatePath exampleFiles ''out.css'' = None"
    by (simp_all add: exampleFiles_def)
  from purify_delivers_source [OF a a2 a3, of exampleFiles]
  have "returned (purify ?E exampleFiles noGlobals ?st ?css (NoOptions :: nat options_arg) None)
          = Inr (ReturnsSource ''.a { } .b { } '')"
    by (simp add: run_defs)
  moreover from purify_delivers_source [OF b b2 b3, of exampleFiles]
  have "CallbackCalled ''.a{}.b{}''
          \<in> set (effects (purify ?E exampleFiles noGlobals ?st ?css ?min (Some ?f)))
        \<and> returned (purify ?E exampleFiles noGlobals ?st ?css ?min (Some ?f))
            = Inr (ReturnsCallbackResult 8)"
    by (simp add: run_defs)
  moreover from purify_delivers_source [OF c c2 c3, of exampleFiles] w v
  have "WriteFile ''out.css'' ''.a { } .b { } ''
          \<in> set (effects (purify ?E exampleFiles noGlobals ?st ?css ?out None))
        \<and> files (fst (completeWrites exampleFiles
                        (effects (purify ?E exampleFiles noGlobals ?st ?css ?out None))))
            ''out.css'' = Some ''.a { } .b { } ''"
    by (simp add: run_defs)
  moreover have "returned (purify ?E exampleFiles noGlobals ?st ?css ?nul None)
                   = Inl (Error ''ERR_INVALID_ARG_VALUE'')"
  proof -
    have d: "mergeOptions ?nul None = (DEFAULT_OPTIONS\<lparr>output_opt := Some (Path nulPath)\<rparr>, None)"
      by (simp add: run_defs)
    have d2: "fst (purified ?E exampleFiles noGlobals ?st ?css
                     (DEFAULT_OPTIONS\<lparr>output_opt := Some (Path nulPath)\<rparr>))
               = Inr (14, [], ''.a { } .b { } '')"
      by (simp add: run_defs example_defs)
    have d3: "snd (report (DEFAULT_OPTIONS\<lparr>output_opt := Some (Path nulPath)\<rparr>)
                     14 [] ''.a { } .b { } '') = None"
      by (simp add: run_defs)
    have d4: "truthy_path (output_opt (DEFAULT_OPTIONS\<lparr>output_opt := Some (Path nulPath)\<rparr>))
                = Some nulPath"
      by (simp add: run_defs nulPath_def)
    have d5: "validatePath exampleFiles nulPath = Some (Error ''ERR_INVALID_ARG_VALUE'')"
      by (simp add: exampleFiles_def nulPath_def)
    from purify_delivers_source [OF d d2 d3, of exampleFiles] d4 d5
    show ?thesis by blast
  qed
  moreover have "returned (purify ?E exampleFiles noGlobals ?st ?css
                             (OptionsFunction lengthCallback) None)
                   = Inr (ReturnsCallbackResult 14)"
  proof -
    have e: "mergeOptions (OptionsFunction lengthCallback) None
               = (DEFAULT_OPTIONS, Some lengthCallback)"
      by (simp add: run_defs)
    from purify_delivers_source [OF e a2 a3, of exampleFiles]
    have "returned (purify ?E exampleFiles noGlobals ?st ?css
                      (OptionsFunction lengthCallback) None)
            = (case lengthCallback ''.a { } .b { } '' of
                 Inl e \<Rightarrow> Inl e
               | Inr r \<Rightarrow> Inr (ReturnsCallbackResult r))"
      by blast
    then show ?thesis by (simp add: lengthCallback_def)
  qed
  ultimately show ?thesis by blast
qed

text \<open>
  C2 as stated delivers the purified text at every invocation. With the destination
  \<^verbatim>\<open>nulPath\<close>, which \<^verbatim>\<open>fs.writeFile\<close> refuses, \<^verbatim>\<open>purify\<close> reaches line 80 with the
  purified text and then throws: the text is not returned, no callback is called and no
  write is pending.
\<close>

theorem purify_refused_path_counterexample:
  "truthy_path (output_opt (DEFAULT_OPTIONS\<lparr>output_opt := Some (Path nulPath)\<rparr>)) = Some nulPath
   \<and> fst (purified (exampleCollaborators throwingUglify) exampleFiles noGlobals
            (Raw ''<p class=a>'') (Raw ''.a { }'')
            (DEFAULT_OPTIONS\<lparr>output_opt := Some (Path nulPath)\<rparr>))
       = Inr (6, [], ''.a { }'')
   \<and> returned (purify (exampleCollaborators throwingUglify) exampleFiles noGlobals
                 (Raw ''<p class=a>'') (Raw ''.a { }'')
                 (OptionsObject (empty_object\<lparr>output_opt := Some (Path nulPath)\<rparr>)
                    :: nat options_arg) None)
       = Inl (Error ''ERR_INVALID_ARG_VALUE'')
   \<and> effects (purify (exampleCollaborators throwingUglify) exampleFiles noGlobals
                (Raw ''<p class=a>'') (Raw ''.a { }'')
                (OptionsObject (empty_object\<lparr>output_opt := Some (Path nulPath)\<rparr>)
                   :: nat options_arg) None)
       = []"
  by (simp add: purify_def deliver_def nulPath_def run_defs example_defs)

text \<open>
  C9, as the code has it. Whenever \<^verbatim>\<open>purify\<close> takes the \<^verbatim>\<open>options.output\<close> branch, it
  never calls the callback, whether one was supplied or not; it returns \<^verbatim>\<open>undefined\<close>
  when \<^verbatim>\<open>fs.writeFile\<close> accepts the path, and throws the exception of \<^verbatim>\<open>fs.writeFile\<close>
  when \<^verbatim>\<open>fs.writeFile\<close> refuses the path.
\<close>

theorem purify_output_branch_returns_undefined:
  assumes "mergeOptions oa ca = (opts, cb)"
    and "fst (purified E fs g st css opts) = Inr (n, twigs, source)"
    and "snd (report opts n twigs source) = None"
    and "truthy_path (output_opt opts) = Some path"
  shows "(\<forall>s. CallbackCalled s \<notin> set (effects (purify E fs g st css oa ca)))
       \<and> (validatePath fs path = None \<longrightarrow>
            returned (purify E fs g st css oa ca) = Inr ReturnsUndefined)
       \<and> (\<forall>e. validatePath fs path = Some e \<longrightarrow>
            returned (purify E fs g st css oa ca) = Inl e)"
proof -
  note r = purify_reaches_delivery [OF assms(1-3)]
  have nocall: "CallbackCalled s \<notin> set (fst (report opts n twigs source))" for s
    using report_logs [of "CallbackCalled s" opts n twigs source] by auto
  show ?thesis
    using assms(4)
    by (auto simp: r deliver_def nocall split: option.splits)
qed

theorem purify_output_branch_returns_undefined_witness:
  "truthy_path (output_opt (DEFAULT_OPTIONS\<lparr>output_opt := Some (Path ''out.css'')\<rparr>))
     = Some ''out.css''
   \<and> returned (purify (exampleCollaborators throwingUglify) exampleFiles noGlobals
                 (Files [''page.html'']) (Files [''a.css'', ''b.css''])
                 (OptionsObject (empty_object\<lparr>output_opt := Some (Path ''out.css'')\<rparr>))
                 (Some (\<lambda>s. Inr (length s))))
       = Inr ReturnsUndefined
   \<and> CallbackCalled ''.a { } .b { } ''
       \<notin> set (effects (purify (exampleCollaborators throwingUglify) exampleFiles noGlobals
                          (Files [''page.html'']) (Files [''a.css'', ''b.css''])
                          (OptionsObject (empty_object\<lparr>output_opt := Some (Path ''out.css'')\<rparr>))
                          (Some (\<lambda>s. Inr (length s)))))
   \<and> returned (purify (exampleCollaborators throwingUglify) exampleFiles noGlobals
                 (Files [''page.html'']) (Files [''a.css'', ''b.css''])
                 (OptionsObject (empty_object\<lparr>output_opt := Some (Path nulPath)\<rparr>))
                 (Some (\<lambda>s. Inr (length s))))
       = Inl (Error ''ERR_INVALID_ARG_VALUE'')"
proof -
  let ?E = "exampleCollaborators throwingUglify"
  let ?st = "Files [''page.html'']"
  let ?css = "Files [''a.css'', ''b.css'']"
  let ?out = "OptionsObject (empty_object\<lparr>output_opt := Some (Path ''out.css'')\<rparr>) :: nat options_arg"
  let ?f = "\<lambda>s. Inr (length s) :: js_error + nat"
  let ?opts = "DEFAULT_OPTIONS\<lparr>output_opt := Some (Path ''out.css'')\<rparr>"
  have c: "mergeOptions ?out (Some ?f) = (?opts, Some ?f)"
    by (simp add: run_defs)
  have c2: "fst (purified ?E exampleFiles noGlobals ?st ?css ?opts)
             = Inr (14, [], ''.a { } .b { } '')"
    by (simp add: run_defs example_defs)
  have c3: "snd (report ?opts 14 [] ''.a { } .b { } '') = None"
    by (simp add: run_defs)
  have c4: "truthy_path (output_opt ?opts) = Some ''out.css''"
    by (simp add: run_defs)
  have v: "validatePath exampleFiles ''out.css'' = None"
    by (simp add: exampleFiles_def)
  let ?nul = "OptionsObject (empty_object\<lparr>output_opt := Some (Path nulPath)\<rparr>) :: nat options_arg"
  let ?nopts = "DEFAULT_OPTIONS\<lparr>output_opt := Some (Path nulPath)\<rparr>"
  have d: "mergeOptions ?nul (Some ?f) = (?nopts, Some ?f)"
    by (simp add: run_defs)
  have d2: "fst (purified ?E exampleFiles noGlobals ?st ?css ?nopts)
             = Inr (14, [], ''.a { } .b { } '')"
    by (simp add: run_defs example_defs)
  have d3: "snd (report ?nopts 14 [] ''.a { } .b { } '') = None"
    by (simp add: run_defs)
  have d4: "truthy_path (output_opt ?nopts) = Some nulPath"
    by (simp add: run_defs nulPath_def)
  have d5: "validatePath exampleFiles nulPath = Some (Error ''ERR_INVALID_ARG_VALUE'')"
    by (simp add: exampleFiles_def nulPath_def)
  from purify_output_branch_returns_undefined [OF d d2 d3 d4] d5
  have "returned (purify ?E exampleFiles noGlobals ?st ?css ?nul (Some ?f))
          = Inl (Error ''ERR_INVALID_ARG_VALUE'')"
    by blast
  with purify_output_branch_returns_undefined [OF c c2 c3 c4] c4 v
  show ?thesis by simp
qed

text \<open>
  C9 as stated has \<^verbatim>\<open>purify\<close> return \<^verbatim>\<open>undefined\<close> whenever the \<^verbatim>\<open>options.output\<close>
  branch is taken. With the destination \<^verbatim>\<open>nulPath\<close> and a callback, the branch is
  taken and \<^verbatim>\<open>purify\<close> throws the exception of \<^verbatim>\<open>fs.writeFile\<close> instead of returning.
\<close>

theorem purify_output_branch_throws_counterexample:
  "mergeOptions (OptionsObject (empty_object\<lparr>output_opt := Some (Path nulPath)\<rparr>))
     (Some lengthCallback)
     = (DEFAULT_OPTIONS\<lparr>output_opt := Some (Path nulPath)\<rparr>, Some lengthCallback)
   \<and> truthy_path (output_opt (DEFAULT_OPTIONS\<lparr>output_opt := Some (Path nulPath)\<rparr>)) = Some nulPath
   \<and> snd (report (DEFAULT_OPTIONS\<lparr>output_opt := Some (Path nulPath)\<rparr>) 6 [] ''.a { }'') = None
   \<and> returned (purify (exampleCollaborators throwingUglify) exampleFiles noGlobals
                 (Raw ''<p class=a>'') (Raw ''.a { }'')
                 (OptionsObject (empty_object\<lparr>output_opt := Some (Path nulPath)\<rparr>))
                 (Some lengthCallback))
       \<noteq> Inr ReturnsUndefined"
  by (simp add: purify_def deliver_def nulPath_def run_defs example_defs)

subsection \<open>The minifier\<close>

lemma prunedTree_order:
  assumes "prunedTree T X css_text corpus = Inr (rs, ra, tree2)"
  shows "\<exists>tree0 tree1 cl el il al.
           CssSyntaxTree T css_text = Inr tree0
         \<and> filterSelectors T tree0 cl el il al = (rs, tree1)
         \<and> filterAtRules T tree1 cl el il al = (ra, tree2)"
proof -
  from assms obtain tree0 where t0: "CssSyntaxTree T css_text = Inr tree0"
    by (cases "CssSyntaxTree T css_text") (simp_all add: prunedTree_def)
  let ?x = "ContentSelectorExtraction X corpus"
  let ?cl = "filter_names X ?x (classes T tree0) @ filterBySearch X ?x (specialClasses T tree0)"
  let ?el = "filter_names X ?x htmlEls"
  let ?il = "filter_names X ?x (ids T tree0) @ filterBySearch X ?x (specialIds T tree0)"
  let ?al = "filterBySearch X ?x (attrSelectors T tree0)"
  obtain rs' tree1 where f1: "filterSelectors T tree0 ?cl ?el ?il ?al = (rs', tree1)"
    by (cases "filterSelectors T tree0 ?cl ?el ?il ?al")
  obtain ra' tree2' where f2: "filterAtRules T tree1 ?cl ?el ?il ?al = (ra', tree2')"
    by (cases "filterAtRules T tree1 ?cl ?el ?il ?al")
  from assms t0 f1 f2 have "rs' = rs" "ra' = ra" "tree2' = tree2"
    by (simp_all add: prunedTree_def filterTree_def Let_def)
  with t0 f1 f2 show ?thesis by blast
qed

lemma purified_source:
  assumes "fst (purified E fs g st css opts) = Inr (n, twigs, source)"
  shows "\<exists>css_text corpus rs ra tree.
           fst (cssString (UglifyJS E) fs css g) = Inr css_text
         \<and> prunedTree (Tree E) (Extraction E) css_text corpus = Inr (rs, ra, tree)
         \<and> source = purifiedSource (Tree E) (CleanCss_minify E) opts tree"
  using assms
  by (auto simp: purified_def split: prod.splits sum.splits)

lemma purified_without_minify:
  "\<not> truthy (minify opts) \<Longrightarrow>
   purified (E\<lparr>CleanCss_minify := M\<rparr>) fs g st css opts = purified E fs g st css opts"
  by (simp add: purified_def purifiedSource_def split: prod.splits sum.splits)

text \<open>
  C8. The purified text is the serialisation of the tree that \<^verbatim>\<open>filterSelectors\<close> and
  then \<^verbatim>\<open>filterAtRules\<close> have pruned, passed through the minifier when the
  \<^verbatim>\<open>minify\<close> option is true and unchanged when it is not; and when the option is not
  true the outcome of \<^verbatim>\<open>purify\<close> is the same whatever the minifier is.
\<close>

theorem minifier_only_on_request_and_on_purified_text:
  assumes "mergeOptions oa ca = (opts, cb)"
    and "fst (purified E fs g st css opts) = Inr (n, twigs, source)"
  shows "(\<exists>css_text tree0 tree1 tree2 cl el il al rs ra.
            fst (cssString (UglifyJS E) fs css g) = Inr css_text
          \<and> CssSyntaxTree (Tree E) css_text = Inr tree0
          \<and> filterSelectors (Tree E) tree0 cl el il al = (rs, tree1)
          \<and> filterAtRules (Tree E) tree1 cl el il al = (ra, tree2)
          \<and> source = (if truthy (minify opts)
                       then CleanCss_minify E (toSrc (Tree E) tree2)
                       else toSrc (Tree E) tree2))
       \<and> (\<not> truthy (minify opts) \<longrightarrow>
            (\<forall>M. purify (E\<lparr>CleanCss_minify := M\<rparr>) fs g st css oa ca
                   = purify E fs g st css oa ca))"
proof (intro conjI impI allI)
  from purified_source [OF assms(2)] obtain css_text corpus rs ra tree where
    c: "fst (cssString (UglifyJS E) fs css g) = Inr css_text"
    and p: "prunedTree (Tree E) (Extraction E) css_text corpus = Inr (rs, ra, tree)"
    and s: "source = purifiedSource (Tree E) (CleanCss_minify E) opts tree"
    by blast
  from prunedTree_order [OF p] obtain tree0 tree1 cl el il al where
    "CssSyntaxTree (Tree E) css_text = Inr tree0"
    "filterSelectors (Tree E) tree0 cl el il al = (rs, tree1)"
    "filterAtRules (Tree E) tree1 cl el il al = (ra, tree)"
    by blast
  with c s show "\<exists>css_text tree0 tree1 tree2 cl el il al rs ra.
            fst (cssString (UglifyJS E) fs css g) = Inr css_text
          \<and> CssSyntaxTree (Tree E) css_text = Inr tree0
          \<and> filterSelectors (Tree E) tree0 cl el il al = (rs, tree1)
          \<and> filterAtRules (Tree E) tree1 cl el il al = (ra, tree2)
          \<and> source = (if truthy (minify opts)
                       then CleanCss_minify E (toSrc (Tree E) tree2)
                       else toSrc (Tree E) tree2)"
    unfolding purifiedSource_def by blast
next
  fix M
  assume "\<not> truthy (minify opts)"
  then have "purified (E\<lparr>CleanCss_minify := M\<rparr>) fs g st css opts = purified E fs g st css opts"
    by (rule purified_without_minify)
  then show "purify (E\<lparr>CleanCss_minify := M\<rparr>) fs g st css oa ca = purify E fs g st css oa ca"
    by (simp add: purify_def assms(1))
qed


theorem minifier_only_on_request_and_on_purified_text_witness:
  "\<not> truthy (minify DEFAULT_OPTIONS)
   \<and> purify (exampleCollaborators throwingUglify\<lparr>CleanCss_minify := (\<lambda>s. ''changed'')\<rparr>)
         exampleFiles noGlobals (Files [''page.html'']) (Files [''a.css'', ''b.css''])
         (NoOptions :: nat options_arg) None
       = purify (exampleCollaborators throwingUglify)
           exampleFiles noGlobals (Files [''page.html'']) (Files [''a.css'', ''b.css''])
           NoOptions None
   \<and> truthy (minify (DEFAULT_OPTIONS\<lparr>minify := Some True\<rparr>))
   \<and> (\<exists>tree2. ''.a{}.b{}''
          = CleanCss_minify (exampleCollaborators throwingUglify)
              (toSrc (Tree (exampleCollaborators throwingUglify)) tree2))"
proof -
  let ?E = "exampleCollaborators throwingUglify"
  let ?st = "Files [''page.html'']"
  let ?css = "Files [''a.css'', ''b.css'']"
  let ?min = "OptionsObject (empty_object\<lparr>minify := Some True\<rparr>) :: nat options_arg"
  have a: "mergeOptions (NoOptions :: nat options_arg) None = (DEFAULT_OPTIONS, None)"
    by (simp add: run_defs)
  have a2: "fst (purified ?E exampleFiles noGlobals ?st ?css DEFAULT_OPTIONS)
             = Inr (14, [], ''.a { } .b { } '')"
    by (simp add: run_defs example_defs)
  have a3: "\<not> truthy (minify DEFAULT_OPTIONS)"
    by (simp add: run_defs)
  have b: "mergeOptions ?min None = (DEFAULT_OPTIONS\<lparr>minify := Some True\<rparr>, None)"
    by (simp add: run_defs)
  have b2: "fst (purified ?E exampleFiles noGlobals ?st ?css
                   (DEFAULT_OPTIONS\<lparr>minify := Some True\<rparr>))
             = Inr (14, [], ''.a{}.b{}'')"
    by (simp add: run_defs example_defs)
  have b3: "truthy (minify (DEFAULT_OPTIONS\<lparr>minify := Some True\<rparr>))"
    by (simp add: run_defs)
  from minifier_only_on_request_and_on_purified_text [OF a a2] a3
  have "purify (?E\<lparr>CleanCss_minify := (\<lambda>s. ''changed'')\<rparr>) exampleFiles noGlobals ?st ?css
          (NoOptions :: nat options_arg) None
        = purify ?E exampleFiles noGlobals ?st ?css NoOptions None"
    by blast
  moreover from minifier_only_on_request_and_on_purified_text [OF b b2] b3
  have "\<exists>tree2. ''.a{}.b{}'' = CleanCss_minify ?E (toSrc (Tree ?E) tree2)"
    by auto
  ultimately show ?thesis using a3 b3 by blast
qed

subsection \<open>The write option\<close>

lemma purify_same_options:
  assumes "mergeOptions oa ca = (opts, cb)"
    and "mergeOptions oa' ca' = (opts', cb)"
    and "purified E fs g st css opts' = purified E fs g st css opts"
    and "\<And>n twigs source. report opts' n twigs source = report opts n twigs source"
    and "\<And>source. deliver fs opts' cb source = deliver fs opts cb source"
  shows "purify E fs g st css oa' ca' = purify E fs g st css oa ca"
  using assms
  by (simp add: purify_def cong: prod.case_cong sum.case_cong option.case_cong)

lemma purified_ignores_write_option:
  "purified E fs g st css (opts\<lparr>write_opt := w\<rparr>) = purified E fs g st css opts"
  by (simp add: purified_def purifiedSource_def cong: prod.case_cong sum.case_cong)

lemma mergeOptions_write_option:
  "mergeOptions (OptionsObject (obj\<lparr>write_opt := w\<rparr>)) ca
     = ((fst (mergeOptions (OptionsObject obj) ca))\<lparr>write_opt := override (Some NoPath) w\<rparr>, ca)"
  by (simp add: mergeOptions_def underscore_extend_def empty_object_def DEFAULT_OPTIONS_def
      override_def)

lemma purify_ignores_write_option:
  "purify E fs g st css (OptionsObject (obj\<lparr>write_opt := w\<rparr>)) ca
     = purify E fs g st css (OptionsObject obj) ca"
proof (rule purify_same_options)
  show "mergeOptions (OptionsObject obj) ca = (fst (mergeOptions (OptionsObject obj) ca), ca)"
    by (simp add: mergeOptions_def)
  show "mergeOptions (OptionsObject (obj\<lparr>write_opt := w\<rparr>)) ca
          = ((fst (mergeOptions (OptionsObject obj) ca))\<lparr>write_opt := override (Some NoPath) w\<rparr>,
             ca)"
    by (rule mergeOptions_write_option)
  show "purified E fs g st css
          ((fst (mergeOptions (OptionsObject obj) ca))\<lparr>write_opt := override (Some NoPath) w\<rparr>)
        = purified E fs g st css (fst (mergeOptions (OptionsObject obj) ca))"
    by (rule purified_ignores_write_option)
  show "\<And>n twigs source.
          report ((fst (mergeOptions (OptionsObject obj) ca))\<lparr>write_opt := override (Some NoPath) w\<rparr>)
            n twigs source
          = report (fst (mergeOptions (OptionsObject obj) ca)) n twigs source"
    by (simp add: report_def)
  show "\<And>source.
          deliver fs ((fst (mergeOptions (OptionsObject obj) ca))\<lparr>write_opt := override (Some NoPath) w\<rparr>)
            ca source
          = deliver fs (fst (mergeOptions (OptionsObject obj) ca)) ca source"
    by (simp add: deliver_def)
qed

lemma purify_effects:
  assumes "mergeOptions oa ca = (opts, cb)"
    and "ev \<in> set (effects (purify E fs g st css oa ca))"
  shows "\<exists>n twigs source.
           ev \<in> set (fst (report opts n twigs source)) \<or> ev \<in> set (fst (deliver fs opts cb source))"
proof (cases "purified E fs g st css opts")
  case (Pair r g')
  show ?thesis
  proof (cases r)
    case (Inl e)
    with Pair assms show ?thesis by (simp add: purify_def)
  next
    case (Inr v)
    obtain n twigs source where v: "v = (n, twigs, source)" by (cases v)
    obtain logged thrown where rep: "report opts n twigs source = (logged, thrown)"
      by (cases "report opts n twigs source")
    obtain delivered ret where del: "deliver fs opts cb source = (delivered, ret)"
      by (cases "deliver fs opts cb source")
    from assms Pair Inr v rep del have "ev \<in> set logged \<or> ev \<in> set delivered"
      by (cases thrown) (auto simp: purify_def)
    with rep del show ?thesis
      by (metis fst_conv)
  qed
qed

lemma deliver_without_output:
  "truthy_path (output_opt opts) = None \<Longrightarrow> ev \<in> set (fst (deliver fs opts cb source))
   \<Longrightarrow> \<not> is_write ev"
  by (auto simp: deliver_def split: option.splits)

lemma purify_without_output_no_write:
  assumes "truthy_path (output_opt (fst (mergeOptions oa ca))) = None"
  shows "WriteFile path data \<notin> set (effects (purify E fs g st css oa ca))"
proof
  assume w: "WriteFile path data \<in> set (effects (purify E fs g st css oa ca))"
  obtain opts cb where m: "mergeOptions oa ca = (opts, cb)" by (cases "mergeOptions oa ca")
  from purify_effects [OF m w] obtain n twigs source where
    "WriteFile path data \<in> set (fst (report opts n twigs source))
     \<or> WriteFile path data \<in> set (fst (deliver fs opts cb source))"
    by blast
  then show False
    using report_logs [of "WriteFile path data" opts n twigs source]
      deliver_without_output [of opts "WriteFile path data" fs cb source] assms m
    by auto
qed

lemma mergeOptions_output:
  "output_opt (fst (mergeOptions (OptionsObject obj) ca)) = output_opt obj"
  by (simp add: mergeOptions_def underscore_extend_def override_def empty_object_def
      DEFAULT_OPTIONS_def split: option.splits)

lemma mergeOptions_callback: "snd (mergeOptions (OptionsObject obj) ca) = ca"
  by (simp add: mergeOptions_def)

text \<open>
  C10. The \<^verbatim>\<open>write\<close> option is never consulted: changing it changes nothing in the
  outcome of \<^verbatim>\<open>purify\<close>. With \<^verbatim>\<open>write\<close> set to a path and \<^verbatim>\<open>output\<close> unset, no
  event is a call of \<^verbatim>\<open>fs.writeFile\<close>, and a run that reaches line 80 returns the
  purified text, or hands it to the callback and returns what the callback returns.
\<close>

theorem write_option_is_never_consulted:
  "purify E fs g st css (OptionsObject (obj\<lparr>write_opt := w\<rparr>)) ca
     = purify E fs g st css (OptionsObject obj) ca
   \<and> (output_opt obj = None \<longrightarrow>
        (\<forall>path data.
           WriteFile path data
             \<notin> set (effects (purify E fs g st css
                                (OptionsObject (obj\<lparr>write_opt := Some (Path p)\<rparr>)) ca))))
   \<and> (output_opt obj = None
        \<and> fst (purified E fs g st css
                 (fst (mergeOptions (OptionsObject (obj\<lparr>write_opt := Some (Path p)\<rparr>)) ca)))
             = Inr (n, twigs, source)
        \<and> snd (report (fst (mergeOptions (OptionsObject (obj\<lparr>write_opt := Some (Path p)\<rparr>)) ca))
                 n twigs source) = None
        \<longrightarrow> (ca = None \<longrightarrow>
               returned (purify E fs g st css
                           (OptionsObject (obj\<lparr>write_opt := Some (Path p)\<rparr>)) ca)
                 = Inr (ReturnsSource source))
          \<and> (\<forall>f. ca = Some f \<longrightarrow>
                 CallbackCalled source
                   \<in> set (effects (purify E fs g st css
                                      (OptionsObject (obj\<lparr>write_opt := Some (Path p)\<rparr>)) ca))
                 \<and> returned (purify E fs g st css
                               (OptionsObject (obj\<lparr>write_opt := Some (Path p)\<rparr>)) ca)
                     = (case f source of
                          Inl e \<Rightarrow> Inl e
                        | Inr r \<Rightarrow> Inr (ReturnsCallbackResult r))))"
proof (intro conjI impI allI)
  let ?oa = "OptionsObject (obj\<lparr>write_opt := Some (Path p)\<rparr>)"
  show "purify E fs g st css (OptionsObject (obj\<lparr>write_opt := w\<rparr>)) ca
          = purify E fs g st css (OptionsObject obj) ca"
    by (rule purify_ignores_write_option)
  {
    fix path data
    assume "output_opt obj = None"
    then have "truthy_path (output_opt (fst (mergeOptions ?oa ca))) = None"
      by (simp add: mergeOptions_output truthy_path_def)
    then show "WriteFile path data \<notin> set (effects (purify E fs g st css ?oa ca))"
      by (rule purify_without_output_no_write)
  }
  assume h: "output_opt obj = None
        \<and> fst (purified E fs g st css (fst (mergeOptions ?oa ca))) = Inr (n, twigs, source)
        \<and> snd (report (fst (mergeOptions ?oa ca)) n twigs source) = None"
  have m: "mergeOptions ?oa ca = (fst (mergeOptions ?oa ca), ca)"
    using mergeOptions_callback [of "obj\<lparr>write_opt := Some (Path p)\<rparr>" ca]
    by (cases "mergeOptions ?oa ca") simp
  from h have t: "truthy_path (output_opt (fst (mergeOptions ?oa ca))) = None"
    by (simp add: mergeOptions_output truthy_path_def)
  from h have "fst (purified E fs g st css (fst (mergeOptions ?oa ca))) = Inr (n, twigs, source)"
    and "snd (report (fst (mergeOptions ?oa ca)) n twigs source) = None"
    by simp_all
  note d = purify_reaches_delivery [OF m this]
  {
    assume "ca = None"
    with d t show "returned (purify E fs g st css ?oa ca) = Inr (ReturnsSource source)"
      by (simp add: deliver_def)
  }
  {
    fix f
    assume "ca = Some f"
    with d t show "CallbackCalled source \<in> set (effects (purify E fs g st css ?oa ca))"
      and "returned (purify E fs g st css ?oa ca)
             = (case f source of Inl e \<Rightarrow> Inl e | Inr r \<Rightarrow> Inr (ReturnsCallbackResult r))"
      by (simp_all add: deliver_def)
  }
qed


theorem write_option_is_never_consulted_witness:
  "output_opt empty_object = None
   \<and> purify (exampleCollaborators throwingUglify) exampleFiles noGlobals
         (Files [''page.html'']) (Files [''a.css'', ''b.css''])
         (OptionsObject (empty_object\<lparr>write_opt := Some (Path ''w.css'')\<rparr>) :: nat options_arg) None
       = purify (exampleCollaborators throwingUglify) exampleFiles noGlobals
           (Files [''page.html'']) (Files [''a.css'', ''b.css''])
           (OptionsObject empty_object) None
   \<and> WriteFile ''w.css'' ''.a { } .b { } ''
       \<notin> set (effects (purify (exampleCollaborators throwingUglify) exampleFiles noGlobals
                          (Files [''page.html'']) (Files [''a.css'', ''b.css''])
                          (OptionsObject (empty_object\<lparr>write_opt := Some (Path ''w.css'')\<rparr>)
                             :: nat options_arg) None))
   \<and> returned (purify (exampleCollaborators throwingUglify) exampleFiles noGlobals
                 (Files [''page.html'']) (Files [''a.css'', ''b.css''])
                 (OptionsObject (empty_object\<lparr>write_opt := Some (Path ''w.css'')\<rparr>)
                    :: nat options_arg) None)
       = Inr (ReturnsSource ''.a { } .b { } '')"
proof -
  let ?E = "exampleCollaborators throwingUglify"
  let ?st = "Files [''page.html'']"
  let ?css = "Files [''a.css'', ''b.css'']"
  let ?w = "OptionsObject (empty_object\<lparr>write_opt := Some (Path ''w.css'')\<rparr>) :: nat options_arg"
  let ?opts = "DEFAULT_OPTIONS\<lparr>write_opt := Some (Path ''w.css'')\<rparr>"
  have o: "output_opt empty_object = None"
    by (simp add: empty_object_def)
  have m: "fst (mergeOptions ?w None) = ?opts"
    by (simp add: run_defs)
  have p: "fst (purified ?E exampleFiles noGlobals ?st ?css (fst (mergeOptions ?w None)))
             = Inr (14, [], ''.a { } .b { } '')"
    unfolding m by (simp add: run_defs example_defs)
  have r: "snd (report (fst (mergeOptions ?w None)) 14 [] ''.a { } .b { } '') = None"
    unfolding m by (simp add: run_defs)
  from write_option_is_never_consulted
         [where E = ?E and fs = exampleFiles and g = noGlobals and st = ?st and css = ?css
            and obj = empty_object and w = "Some (Path ''w.css'')" and ca = None
            and p = "''w.css''" and n = 14 and twigs = "[]" and source = "''.a { } .b { } ''"]
       o p r
  show ?thesis by blast
qed

subsection \<open>Write failures\<close>

lemma readFileSync_ignores_unwritable:
  "readFileSync (fs\<lparr>unwritable := u\<rparr>) file = readFileSync fs file"
  by (simp add: readFileSync_def)

lemma concatFiles_ignores_unwritable:
  "concatFiles U (fs\<lparr>unwritable := u\<rparr>) c paths tot g = concatFiles U fs c paths tot g"
proof (induction paths arbitrary: tot g)
  case Nil
  show ?case by simp
next
  case (Cons p paths)
  show ?case
    using Cons.IH
    by (cases "readFileSync fs p"; cases c)
       (simp_all add: readFileSync_ignores_unwritable split: prod.splits)
qed

lemma cssString_ignores_unwritable:
  "cssString U (fs\<lparr>unwritable := u\<rparr>) css g = cssString U fs css g"
  by (cases css) (simp_all add: cssString_def concatFiles_ignores_unwritable)

lemma content_ignores_unwritable:
  "content lower U (fs\<lparr>unwritable := u\<rparr>) st g = content lower U fs st g"
  by (cases st) (simp_all add: content_def concatFiles_ignores_unwritable)

lemma purified_ignores_unwritable:
  "purified E (fs\<lparr>unwritable := u\<rparr>) g st css opts = purified E fs g st css opts"
  by (simp add: purified_def cssString_ignores_unwritable content_ignores_unwritable
      cong: prod.case_cong sum.case_cong)

lemma deliver_ignores_unwritable:
  "deliver (fs\<lparr>unwritable := u\<rparr>) opts cb source = deliver fs opts cb source"
  by (simp add: deliver_def split: option.splits)

lemma purify_ignores_unwritable:
  "purify E (fs\<lparr>unwritable := u\<rparr>) g st css oa ca = purify E fs g st css oa ca"
  by (simp add: purify_def purified_ignores_unwritable deliver_ignores_unwritable
      cong: prod.case_cong sum.case_cong option.case_cong)

text \<open>
  C3, on the code. With the destination \<^verbatim>\<open>/readonly/out.css\<close>, at which the write
  fails: \<^verbatim>\<open>purify\<close> returns \<^verbatim>\<open>undefined\<close>, throws nothing, its only event is the call
  of \<^verbatim>\<open>fs.writeFile\<close> (the callback of the caller is not called), and when the write is
  carried out the file system is unchanged and the error is the value that the write
  callback returns, which nothing receives. The outcome of \<^verbatim>\<open>purify\<close> is the one it has
  when the same write succeeds.
\<close>

theorem write_failure_reaches_nobody:
  "returned (purify (exampleCollaborators throwingUglify) exampleFiles noGlobals
               (Raw ''<p class=a>'') (Raw ''.a { }'')
               (OptionsObject (empty_object\<lparr>output_opt := Some (Path ''/readonly/out.css'')\<rparr>))
               (Some (\<lambda>s. Inr (length s))))
     = Inr ReturnsUndefined
   \<and> effects (purify (exampleCollaborators throwingUglify) exampleFiles noGlobals
                (Raw ''<p class=a>'') (Raw ''.a { }'')
                (OptionsObject (empty_object\<lparr>output_opt := Some (Path ''/readonly/out.css'')\<rparr>))
                (Some (\<lambda>s. Inr (length s))))
     = [WriteFile ''/readonly/out.css'' ''.a { }'']
   \<and> completeWrites exampleFiles [WriteFile ''/readonly/out.css'' ''.a { }'']
     = (exampleFiles, [Some (Error ''EACCES'')])
   \<and> purify (exampleCollaborators throwingUglify) (exampleFiles\<lparr>unwritable := []\<rparr>) noGlobals
         (Raw ''<p class=a>'') (Raw ''.a { }'')
         (OptionsObject (empty_object\<lparr>output_opt := Some (Path ''/readonly/out.css'')\<rparr>))
         (Some (\<lambda>s. Inr (length s)))
     = purify (exampleCollaborators throwingUglify) exampleFiles noGlobals
         (Raw ''<p class=a>'') (Raw ''.a { }'')
         (OptionsObject (empty_object\<lparr>output_opt := Some (Path ''/readonly/out.css'')\<rparr>))
         (Some (\<lambda>s. Inr (length s)))"
  by (simp add: purify_ignores_unwritable)
     (simp add: purify_def deliver_def writeFile_def writeFile_callback_def run_defs example_defs)

subsection \<open>The global object\<close>

lemma purified_fst_globals:
  "fst (purified E fs g st css opts) = fst (purified E fs g' st css opts)"
proof -
  have c: "fst (cssString (UglifyJS E) fs css g) = fst (cssString (UglifyJS E) fs css g')"
    using concatFiles_fst_globals [of "UglifyJS E" fs False _ "[]" g g']
    by (cases css) (simp_all add: cssString_def)
  have k: "fst (content (toLowerCase E) (UglifyJS E) fs st h) = fst (content (toLowerCase E) (UglifyJS E) fs st h')" for h h'
  proof (cases st)
    case (Files paths)
    with concatFiles_fst_globals [of "UglifyJS E" fs True paths "[]" h h'] show ?thesis
      by (cases "concatFiles (UglifyJS E) fs True paths [] h";
          cases "concatFiles (UglifyJS E) fs True paths [] h'")
         (auto simp: content_def split: sum.splits)
  next
    case (Raw t)
    with compressCode_fst_globals [of "UglifyJS E" h t h'] show ?thesis
      by (cases "compressCode (UglifyJS E) h t"; cases "compressCode (UglifyJS E) h' t")
         (simp add: content_def)
  qed
  obtain r1 g1 where a: "cssString (UglifyJS E) fs css g = (r1, g1)"
    by (cases "cssString (UglifyJS E) fs css g")
  obtain r2 g2 where b: "cssString (UglifyJS E) fs css g' = (r2, g2)"
    by (cases "cssString (UglifyJS E) fs css g'")
  from c a b have r: "r2 = r1" by simp
  show ?thesis
  proof (cases r1)
    case (Inl e)
    with a b r show ?thesis by (simp add: purified_def)
  next
    case (Inr css_text)
    obtain q1 h1 where a2: "content (toLowerCase E) (UglifyJS E) fs st g1 = (q1, h1)"
      by (cases "content (toLowerCase E) (UglifyJS E) fs st g1")
    obtain q2 h2 where b2: "content (toLowerCase E) (UglifyJS E) fs st g2 = (q2, h2)"
      by (cases "content (toLowerCase E) (UglifyJS E) fs st g2")
    from k [of g1 g2] a2 b2 have "q2 = q1" by simp
    with a b r Inr a2 b2 show ?thesis
      by (cases q1) (auto simp: purified_def split: sum.splits)
  qed
qed

lemma purify_output_ignores_globals:
  "returned (purify E fs g st css oa ca) = returned (purify E fs g' st css oa ca)
   \<and> effects (purify E fs g st css oa ca) = effects (purify E fs g' st css oa ca)"
proof -
  obtain opts cb where m: "mergeOptions oa ca = (opts, cb)" by (cases "mergeOptions oa ca")
  obtain r1 g1 where a: "purified E fs g st css opts = (r1, g1)"
    by (cases "purified E fs g st css opts")
  obtain r2 g2 where b: "purified E fs g' st css opts = (r2, g2)"
    by (cases "purified E fs g' st css opts")
  from purified_fst_globals [of E fs g st css opts g'] a b have "r2 = r1" by simp
  with m a b show ?thesis
    by (auto simp: purify_def split: sum.splits prod.splits option.splits)
qed

text \<open>
  C4, on the code. A call of \<^verbatim>\<open>purify\<close> on content that UglifyJS parses leaves the
  global \<^verbatim>\<open>compressor\<close> assigned, where it was not assigned before: \<^verbatim>\<open>compressCode\<close>
  writes a global of the process.
\<close>

theorem compressCode_writes_global:
  "compressor noGlobals = None
   \<and> globals_after (purify (exampleCollaborators spaceDroppingUglify) exampleFiles noGlobals
                      (Raw ''var a = 1'') (Raw ''.a { }'') (NoOptions :: nat options_arg) None)
     = \<lparr>compressor = Some ()\<rparr>
   \<and> snd (compressCode spaceDroppingUglify noGlobals ''var a = 1'') = \<lparr>compressor = Some ()\<rparr>"
  by (simp add: purify_def deliver_def run_defs example_defs)

end
